theory Spec2Isabelle
  imports Main "HOL-Library.Sublist"
begin

section \<open>Paths\<close>

text \<open>
  The script builds every path with \<^verbatim>\<open>os.path\<close>. Paths are plain strings; the three
  functions used are embedded after their POSIX definitions (\<^verbatim>\<open>posixpath.join\<close>,
  \<^verbatim>\<open>posixpath.split\<close>, \<^verbatim>\<open>genericpath._splitext\<close>), with \<^verbatim>\<open>str.rfind\<close> returning
  \<open>-1\<close> when the character does not occur.
\<close>

type_synonym path = string

definition rfind :: "string \<Rightarrow> char \<Rightarrow> int" where
  "rfind p c = int (length (dropWhile (\<lambda>x. x \<noteq> c) (rev p))) - 1"

definition os_path_join :: "path \<Rightarrow> path \<Rightarrow> path" where
  "os_path_join a b =
     (if b \<noteq> [] \<and> hd b = CHR ''/'' then b
      else if a = [] \<or> last a = CHR ''/'' then a @ b
      else a @ ''/'' @ b)"

definition rstrip :: "char \<Rightarrow> string \<Rightarrow> string" where
  "rstrip c s = rev (dropWhile (\<lambda>x. x = c) (rev s))"

definition os_path_split :: "path \<Rightarrow> path \<times> path" where
  "os_path_split p =
     (let i = nat (rfind p CHR ''/'' + 1);
          head = take i p;
          tail = drop i p
      in (if head \<noteq> [] \<and> head \<noteq> replicate (length head) CHR ''/''
          then rstrip CHR ''/'' head else head, tail))"

definition os_path_splitext :: "path \<Rightarrow> path \<times> path" where
  "os_path_splitext p =
     (let sepIndex = rfind p CHR ''/'';
          dotIndex = rfind p CHR ''.''
      in if dotIndex > sepIndex \<and>
            list_ex (\<lambda>i. p ! i \<noteq> CHR ''.'') [nat (sepIndex + 1) ..< nat dotIndex]
         then (take (nat dotIndex) p, drop (nat dotIndex) p)
         else (p, []))"

text \<open>\<open>in_tree d p\<close>: the path \<open>p\<close> is the directory \<open>d\<close> or lies below it.\<close>

definition in_tree :: "path \<Rightarrow> path \<Rightarrow> bool" where
  "in_tree d p = (p = d \<or> prefix (d @ ''/'') p)"

section \<open>The catalog\<close>

text \<open>
  \<^verbatim>\<open>NTOSKRNL_MAP\<close> maps an ISO name to the pair (path of the intermediate container inside
  the ISO, path of the kernel inside the container). The loop iterates over its items; the
  association list keeps them in the order the source writes them (the order a dictionary
  yields them in since Python 3.7). The loop itself is defined for any list of entries, and
  what is proved about it holds for every list.
\<close>

type_synonym entry = "path \<times> path \<times> path"

definition NTOSKRNL_MAP :: "entry list" where
  "NTOSKRNL_MAP =
     [(''en_windows_xp_professional_with_service_pack_3_x86_cd_x14-80428.iso'',
         os_path_join ''I386'' ''NTOSKRNL.EX_'',
         ''ntoskrnl.exe''),
      (''en_windows_7_enterprise_with_sp1_x64_dvd_u_677651.iso'',
         os_path_join ''sources'' ''install.wim'',
         os_path_join (os_path_join ''Windows'' ''System32'') ''ntoskrnl.exe''),
      (''en_windows_8_1_enterprise_x64_dvd_2971902.iso'',
         os_path_join ''sources'' ''install.wim'',
         os_path_join (os_path_join ''Windows'' ''System32'') ''ntoskrnl.exe''),
      (''en_windows_10_enterprise_version_1703_updated_march_2017_x64_dvd_10189290.iso'',
         os_path_join ''sources'' ''install.wim'',
         os_path_join (os_path_join ''Windows'' ''System32'') ''ntoskrnl.exe'')]"

section \<open>The world the script runs in\<close>

text \<open>
  Exceptions are values. \<open>Exception\<close> is what \<^verbatim>\<open>main\<close> raises itself, \<open>OSError\<close> stands
  for the errors of the operating system and of \<^verbatim>\<open>shutil\<close> (a missing executable, a missing
  file, a refused deletion), \<open>TypeError\<close> for a path operation on \<^verbatim>\<open>None\<close>,
  \<open>UnicodeEncodeError\<close> for a line that standard output cannot encode. All of them are
  subclasses of \<^verbatim>\<open>Exception\<close>, which is what \<^verbatim>\<open>cleanup\<close> catches.
\<close>

datatype exn = Exception string | OSError string | TypeError string | UnicodeEncodeError string

text \<open>Every library operation that touches the outside world is recorded when invoked.\<close>

datatype call =
    Mkdtemp
  | Popen "string list" path
  | Rmtree path
  | Move path path

text \<open>
  The lines the script prints, by format string; the arguments are the values substituted.
  \<open>CleanupErrorMsg\<close> is the only one written to standard error.
\<close>

datatype message =
    NotFoundMsg path
  | ExtractingMsg path
  | Hop1FailedMsg path path string
  | Hop2FailedMsg path string
  | SuccessMsg path
  | CleanupErrorMsg exn "path option"
  | ImplicitCleanupMsg "path option"

record world =
  dirs :: "path set"
  files :: "path set"
  sys_stdout :: "message list"
  sys_stderr :: "message list"
  trace :: "call list"

text \<open>
  What the program cannot decide is a parameter: the name \<^verbatim>\<open>mkdtemp\<close> picks (or its
  failure), what launching \<^verbatim>\<open>7z\<close> yields (the launch failing, or exit status, standard error
  text and the names of the files it wrote into its working directory), and whether a deletion
  or a move is refused; each of these may depend on the whole current world, which includes
  the trace of earlier calls. A refused move also says whether the destination had been
  written when it raised. \<open>print_fault\<close> is the encoding of standard output: the exception, if
  any, that printing a given line raises there.
\<close>

record env =
  realpath :: "path \<Rightarrow> path"
  getcwd :: path
  mkdtemp_result :: "world \<Rightarrow> exn + path"
  popen_result :: "world \<Rightarrow> string list \<Rightarrow> path \<Rightarrow> exn + (int \<times> string \<times> path list)"
  rmtree_fault :: "world \<Rightarrow> path \<Rightarrow> exn option"
  move_fault :: "world \<Rightarrow> path \<Rightarrow> path \<Rightarrow> (exn \<times> bool) option"
  print_fault :: "message \<Rightarrow> exn option"

definition os_path_isdir :: "world \<Rightarrow> path \<Rightarrow> bool" where
  "os_path_isdir w p = (p \<in> dirs w)"

definition os_path_isfile :: "world \<Rightarrow> path \<Rightarrow> bool" where
  "os_path_isfile w p = (p \<in> files w)"

text \<open>
  \<^verbatim>\<open>tempfile.mkdtemp\<close> creates a directory that did not exist before: a proposed name that
  is empty, ends in a separator, exists, or has something below it counts as the failure
  mkdtemp reports when it finds no usable name.
\<close>

definition fresh :: "world \<Rightarrow> path \<Rightarrow> bool" where
  "fresh w t =
     (t \<noteq> [] \<and> last t \<noteq> CHR ''/'' \<and> (\<forall>p \<in> dirs w \<union> files w. \<not> in_tree t p))"

definition tempfile_mkdtemp :: "env \<Rightarrow> world \<Rightarrow> (exn + path) \<times> world" where
  "tempfile_mkdtemp E w =
     (let w1 = w\<lparr>trace := trace w @ [Mkdtemp]\<rparr> in
      case mkdtemp_result E w of
        Inl e \<Rightarrow> (Inl e, w1)
      | Inr t \<Rightarrow>
          if fresh w t then (Inr t, w1\<lparr>dirs := insert t (dirs w1)\<rparr>)
          else (Inl (OSError ''No usable temporary directory name found''), w1))"

text \<open>
  \<^verbatim>\<open>shutil.rmtree\<close> either removes the directory and everything below it, or raises and
  (in this model) removes nothing.
\<close>

definition shutil_rmtree :: "env \<Rightarrow> path \<Rightarrow> world \<Rightarrow> (exn + unit) \<times> world" where
  "shutil_rmtree E p w =
     (let w1 = w\<lparr>trace := trace w @ [Rmtree p]\<rparr> in
      if p \<notin> dirs w then (Inl (OSError ''No such file or directory''), w1)
      else case rmtree_fault E w p of
        Some e \<Rightarrow> (Inl e, w1)
      | None \<Rightarrow>
          (Inr (), w1\<lparr>dirs := {d \<in> dirs w1. \<not> in_tree p d},
                      files := {f \<in> files w1. \<not> in_tree p f}\<rparr>))"

text \<open>
  \<^verbatim>\<open>shutil.move\<close> of a regular file: a destination that is an existing directory receives
  the file under its base name (and must not hold that name already); an existing destination
  file is replaced. When \<^verbatim>\<open>os.rename\<close> is refused, \<^verbatim>\<open>shutil.move\<close> copies the file and then
  unlinks the source; the copy or the unlink can raise when the destination is already written,
  wholly or in part, and the source is then still in place. A source that does not exist
  makes it raise before anything is written.
\<close>

definition shutil_move :: "env \<Rightarrow> path \<Rightarrow> path \<Rightarrow> world \<Rightarrow> (exn + path) \<times> world" where
  "shutil_move E src dst w =
     (let w1 = w\<lparr>trace := trace w @ [Move src dst]\<rparr>;
          real_dst = (if os_path_isdir w dst
                      then os_path_join dst (snd (os_path_split src)) else dst)
      in if os_path_isdir w dst \<and> (real_dst \<in> dirs w \<or> real_dst \<in> files w)
         then (Inl (OSError ''Destination path already exists''), w1)
         else if src \<notin> files w then (Inl (OSError ''No such file or directory''), w1)
         else case move_fault E w src real_dst of
           Some (e, written) \<Rightarrow>
             (Inl e, if written then w1\<lparr>files := insert real_dst (files w1)\<rparr> else w1)
         | None \<Rightarrow> (Inr real_dst, w1\<lparr>files := insert real_dst (files w1 - {src})\<rparr>))"

section \<open>TemporaryDirectory\<close>

record TemporaryDirectory =
  name :: "path option"
  closed :: bool

text \<open>
  \<^verbatim>\<open>__init__\<close> sets \<^verbatim>\<open>_closed\<close> and \<^verbatim>\<open>name\<close> before calling \<^verbatim>\<open>mkdtemp\<close>, so when
  mkdtemp raises, the object that is dropped has \<^verbatim>\<open>name = None\<close>.
\<close>

definition TemporaryDirectory_init ::
  "env \<Rightarrow> world \<Rightarrow> (exn + unit) \<times> TemporaryDirectory \<times> world" where
  "TemporaryDirectory_init E w =
     (let self = \<lparr>name = None, closed = False\<rparr> in
      case tempfile_mkdtemp E w of
        (Inl e, w1) \<Rightarrow> (Inl e, self, w1)
      | (Inr t, w1) \<Rightarrow> (Inr (), self\<lparr>name := Some t\<rparr>, w1))"

definition TemporaryDirectory_enter :: "TemporaryDirectory \<Rightarrow> path option" where
  "TemporaryDirectory_enter self = name self"

text \<open>
  \<^verbatim>\<open>if self.name and not self._closed\<close>: the name is neither \<^verbatim>\<open>None\<close> nor the empty
  string. Whatever \<^verbatim>\<open>rmtree\<close> raises is caught, printed on standard error, and the method
  returns with \<^verbatim>\<open>_closed\<close> unchanged.
\<close>

definition cleanup ::
  "env \<Rightarrow> bool \<Rightarrow> TemporaryDirectory \<Rightarrow> world \<Rightarrow> (exn + unit) \<times> TemporaryDirectory \<times> world" where
  "cleanup E warn self w =
     (case name self of
        None \<Rightarrow> (Inr (), self, w)
      | Some n \<Rightarrow>
          if n \<noteq> [] \<and> \<not> closed self then
            (case shutil_rmtree E n w of
               (Inl e, w1) \<Rightarrow>
                 (Inr (), self,
                  w1\<lparr>sys_stderr := sys_stderr w1 @ [CleanupErrorMsg e (name self)]\<rparr>)
             | (Inr _, w1) \<Rightarrow>
                 (let self' = self\<lparr>closed := True\<rparr> in
                  (Inr (), self',
                   if warn
                   then w1\<lparr>sys_stdout := sys_stdout w1 @ [ImplicitCleanupMsg (name self')]\<rparr>
                   else w1)))
          else (Inr (), self, w))"

definition TemporaryDirectory_exit ::
  "env \<Rightarrow> TemporaryDirectory \<Rightarrow> world \<Rightarrow> (exn + unit) \<times> TemporaryDirectory \<times> world" where
  "TemporaryDirectory_exit E self w = cleanup E False self w"

definition TemporaryDirectory_del ::
  "env \<Rightarrow> TemporaryDirectory \<Rightarrow> world \<Rightarrow> (exn + unit) \<times> TemporaryDirectory \<times> world" where
  "TemporaryDirectory_del E self w = cleanup E True self w"

section \<open>seven_zip_extract\<close>

text \<open>
  \<^verbatim>\<open>Popen\<close> followed by \<^verbatim>\<open>communicate\<close>: the launch may raise; otherwise the process
  has written some files into its working directory and returns its exit status and what it
  printed on standard error. \<^verbatim>\<open>7z e\<close> writes the members it extracts flat, under their
  base names: of the names the environment reports, those that are a single path component
  are the files written.
\<close>

definition plain_name :: "path \<Rightarrow> bool" where
  "plain_name f = (f \<noteq> [] \<and> CHR ''/'' \<notin> set f)"

definition subprocess_Popen ::
  "env \<Rightarrow> string list \<Rightarrow> path \<Rightarrow> world \<Rightarrow> (exn + int \<times> string) \<times> world" where
  "subprocess_Popen E args cwd w =
     (let w1 = w\<lparr>trace := trace w @ [Popen args cwd]\<rparr> in
      case popen_result E w args cwd of
        Inl e \<Rightarrow> (Inl e, w1)
      | Inr (returncode, stderr, written) \<Rightarrow>
          (Inr (returncode, stderr),
           w1\<lparr>files := files w1 \<union> os_path_join cwd ` set (filter plain_name written)\<rparr>))"

definition seven_zip_extract ::
  "env \<Rightarrow> path \<Rightarrow> path list \<Rightarrow> path option \<Rightarrow> world \<Rightarrow> (exn + int \<times> string) \<times> world" where
  "seven_zip_extract E source fs dest w =
     (let dest' = (case dest of
                     None \<Rightarrow> getcwd E
                   | Some d \<Rightarrow> if d = [] then getcwd E else d);
          args = [''7z'', ''e'', source] @ fs
      in subprocess_Popen E args dest' w)"

section \<open>main\<close>

text \<open>
  Four lines are unicode literals that begin with a ballot or check mark (\<^verbatim>\<open>U+2717\<close>,
  \<^verbatim>\<open>U+2713\<close>): not found, the two extraction failures, and success. \<^verbatim>\<open>print\<close> encodes a
  line before it writes it, so on a standard output that cannot encode the mark it raises
  \<^verbatim>\<open>UnicodeEncodeError\<close> and nothing is written. The fault is a function of the line, so
  it also stands for a failure to format it. The progress line and the lines of \<^verbatim>\<open>cleanup\<close>
  are plain ASCII and are appended directly.
\<close>

definition print_unicode :: "env \<Rightarrow> message \<Rightarrow> world \<Rightarrow> (exn + unit) \<times> world" where
  "print_unicode E m w =
     (case print_fault E m of
        Some e \<Rightarrow> (Inl e, w)
      | None \<Rightarrow> (Inr (), w\<lparr>sys_stdout := sys_stdout w @ [m]\<rparr>))"

text \<open>How the body of the \<^verbatim>\<open>with\<close> statement is left when it does not raise.\<close>

datatype flow = Normal | Continue

definition with_body ::
  "env \<Rightarrow> path \<Rightarrow> path \<Rightarrow> entry \<Rightarrow> path option \<Rightarrow> world \<Rightarrow> (exn + flow) \<times> world" where
  "with_body E iso_path output_dir ent temp_dir w =
     (case ent of (iso', container, krnl) \<Rightarrow>
      (let w1 = w\<lparr>sys_stdout := sys_stdout w @ [ExtractingMsg iso']\<rparr> in
       (case seven_zip_extract E iso_path [container] temp_dir w1 of
          (Inl e, w2) \<Rightarrow> (Inl e, w2)
        | (Inr (returncode, stderr), w2) \<Rightarrow>
            (if stderr \<noteq> [] then
               (case print_unicode E (Hop1FailedMsg container iso' stderr) w2 of
                  (Inl e, w2') \<Rightarrow> (Inl e, w2')
                | (Inr _, w2') \<Rightarrow> (Inr Continue, w2'))
             else
               (case temp_dir of
                  None \<Rightarrow> (Inl (TypeError ''expected str, not NoneType''), w2)
                | Some td \<Rightarrow>
                    (let container_name = snd (os_path_split container);
                         container_path = os_path_join td container_name
                     in (case seven_zip_extract E container_path [krnl] temp_dir w2 of
                           (Inl e, w3) \<Rightarrow> (Inl e, w3)
                         | (Inr (returncode, stderr), w3) \<Rightarrow>
                             (if returncode \<noteq> 0 then
                                (case print_unicode E (Hop2FailedMsg container_name stderr)
                                        w3 of
                                   (Inl e, w3') \<Rightarrow> (Inl e, w3')
                                 | (Inr _, w3') \<Rightarrow> (Inr Continue, w3'))
                              else
                                (let iso_name = fst (os_path_splitext iso') in
                                 (case shutil_move E (os_path_join td ''ntoskrnl.exe'')
                                         (os_path_join output_dir (iso_name @ ''_ntoskrnl.exe''))
                                         w3 of
                                    (Inl e, w4) \<Rightarrow> (Inl e, w4)
                                  | (Inr _, w4) \<Rightarrow> (Inr Normal, w4)))))))))))"

text \<open>
  One iteration of the loop. The \<^verbatim>\<open>with\<close> statement calls \<^verbatim>\<open>__exit__\<close> however the body
  is left; an exception of the body is raised again afterwards, as \<^verbatim>\<open>__exit__\<close> returns
  \<^verbatim>\<open>None\<close>. The object is bound to no variable, so its reference count drops to zero when the
  statement is left and \<^verbatim>\<open>__del__\<close> runs at that point (what it raises would be ignored);
  the same holds for the object whose \<^verbatim>\<open>__init__\<close> raised. An exception of a
  \<^verbatim>\<open>print\<close> is not handled anywhere: inside the \<^verbatim>\<open>with\<close> statement it leaves the body like
  any other, outside it ends the iteration.
\<close>

definition loop_body :: "env \<Rightarrow> path \<Rightarrow> path \<Rightarrow> entry \<Rightarrow> world \<Rightarrow> (exn + unit) \<times> world" where
  "loop_body E iso_dir output_dir ent w =
     (let iso' = fst ent;
          iso_path = os_path_join iso_dir iso'
      in if \<not> os_path_isfile w iso_path then
           print_unicode E (NotFoundMsg iso') w
         else
           (case TemporaryDirectory_init E w of
              (Inl e, self, w1) \<Rightarrow> (Inl e, snd (snd (TemporaryDirectory_del E self w1)))
            | (Inr _, self, w1) \<Rightarrow>
                (case with_body E iso_path output_dir ent (TemporaryDirectory_enter self) w1 of
                   (r, w2) \<Rightarrow>
                (case TemporaryDirectory_exit E self w2 of
                   (x, self', w3) \<Rightarrow>
                (case TemporaryDirectory_del E self' w3 of
                   (_, _, w4) \<Rightarrow>
                (case x of
                   Inl e' \<Rightarrow> (Inl e', w4)
                 | Inr _ \<Rightarrow>
                     (case r of
                        Inl e \<Rightarrow> (Inl e, w4)
                      | Inr Continue \<Rightarrow> (Inr (), w4)
                      | Inr Normal \<Rightarrow> print_unicode E (SuccessMsg iso') w4)))))))"

fun main_loop :: "env \<Rightarrow> path \<Rightarrow> path \<Rightarrow> entry list \<Rightarrow> world \<Rightarrow> (exn + unit) \<times> world" where
  "main_loop E iso_dir output_dir [] w = (Inr (), w)"
| "main_loop E iso_dir output_dir (ent # rest) w =
     (case loop_body E iso_dir output_dir ent w of
        (Inl e, w') \<Rightarrow> (Inl e, w')
      | (Inr _, w') \<Rightarrow> main_loop E iso_dir output_dir rest w')"

text \<open>The parsed command line: \<^verbatim>\<open>args.iso_dir\<close> and \<^verbatim>\<open>args.output_dir\<close>.\<close>

record args =
  args_iso_dir :: path
  args_output_dir :: path

definition main :: "env \<Rightarrow> args \<Rightarrow> world \<Rightarrow> (exn + unit) \<times> world" where
  "main E a w =
     (let iso_dir = args_iso_dir a in
      if \<not> os_path_isdir w iso_dir
      then (Inl (Exception (iso_dir @ '' is not a valid ISO directory'')), w)
      else
        let output_dir = args_output_dir a in
        if \<not> os_path_isdir w output_dir
        then (Inl (Exception (output_dir @ '' is not a valid output directory'')), w)
        else main_loop E (realpath E iso_dir) (realpath E output_dir) NTOSKRNL_MAP w)"

section \<open>Observations on a run\<close>

text \<open>
  What the properties below speak about. \<open>calls_made\<close> is the trace without the workspace
  deletions, \<open>outcome_msgs\<close> is standard output without the messages of \<^verbatim>\<open>cleanup\<close>:
  how many deletions are tried, and what they print, depends on whether a deletion is refused,
  and not on the outcome of the entry. \<open>attempted\<close> lists the entries the loop has examined,
  by the first line printed for each. \<open>outside t S\<close> are the paths of \<open>S\<close> that are not in
  the workspace \<open>t\<close>. \<open>entered w t i\<close> is the world in which the first extraction is
  launched: the workspace \<open>t\<close> exists and the progress line for \<open>i\<close> is printed.
  \<open>body_world\<close> is the world in which the \<^verbatim>\<open>with\<close> statement is left.
\<close>

fun is_rmtree :: "call \<Rightarrow> bool" where
  "is_rmtree (Rmtree p) = True"
| "is_rmtree c = False"

definition calls_made :: "world \<Rightarrow> call list" where
  "calls_made w = filter (\<lambda>c. \<not> is_rmtree c) (trace w)"

fun is_cleanup_msg :: "message \<Rightarrow> bool" where
  "is_cleanup_msg (CleanupErrorMsg e n) = True"
| "is_cleanup_msg (ImplicitCleanupMsg n) = True"
| "is_cleanup_msg m = False"

definition outcome_msgs :: "world \<Rightarrow> message list" where
  "outcome_msgs w = filter (\<lambda>m. \<not> is_cleanup_msg m) (sys_stdout w)"

fun attempted_of :: "message \<Rightarrow> path list" where
  "attempted_of (NotFoundMsg i) = [i]"
| "attempted_of (ExtractingMsg i) = [i]"
| "attempted_of m = []"

definition attempted :: "world \<Rightarrow> path list" where
  "attempted w = concat (map attempted_of (sys_stdout w))"

definition outside :: "path \<Rightarrow> path set \<Rightarrow> path set" where
  "outside t S = {p \<in> S. \<not> in_tree t p}"

definition entered :: "world \<Rightarrow> path \<Rightarrow> path \<Rightarrow> world" where
  "entered w t iso' =
     w\<lparr>dirs := insert t (dirs w), trace := trace w @ [Mkdtemp],
       sys_stdout := sys_stdout w @ [ExtractingMsg iso']\<rparr>"

definition body_world :: "env \<Rightarrow> path \<Rightarrow> path \<Rightarrow> entry \<Rightarrow> path \<Rightarrow> world \<Rightarrow> world" where
  "body_world E iso_dir output_dir ent t w =
     snd (with_body E (os_path_join iso_dir (fst ent)) output_dir ent (Some t)
            (w\<lparr>dirs := insert t (dirs w), trace := trace w @ [Mkdtemp]\<rparr>))"

section \<open>Example environments\<close>

text \<open>
  Concrete worlds on which the properties are evaluated. The input directory \<^verbatim>\<open>/in\<close> holds
  the Windows 7 image of the catalog, \<^verbatim>\<open>mkdtemp\<close> always proposes \<^verbatim>\<open>/tmp/tmpA\<close>, a move
  is never refused and standard output can encode every line; what \<^verbatim>\<open>7z\<close> does and whether
  deletions are refused vary.
\<close>

definition example_env ::
  "(world \<Rightarrow> string list \<Rightarrow> path \<Rightarrow> exn + (int \<times> string \<times> path list)) \<Rightarrow>
   (world \<Rightarrow> path \<Rightarrow> exn option) \<Rightarrow> env" where
  "example_env po rf =
     \<lparr>realpath = (\<lambda>p. p), getcwd = ''/'',
      mkdtemp_result = (\<lambda>w. Inr ''/tmp/tmpA''),
      popen_result = po, rmtree_fault = rf, move_fault = (\<lambda>w src dst. None),
      print_fault = (\<lambda>m. None)\<rparr>"

definition win7 :: entry where
  "win7 = (''en_windows_7_enterprise_with_sp1_x64_dvd_u_677651.iso'',
           ''sources/install.wim'', ''Windows/System32/ntoskrnl.exe'')"

definition example_world :: world where
  "example_world =
     \<lparr>dirs = {''/in'', ''/out''},
      files = {''/in/en_windows_7_enterprise_with_sp1_x64_dvd_u_677651.iso''},
      sys_stdout = [], sys_stderr = [], trace = []\<rparr>"

text \<open>\<^verbatim>\<open>7z\<close> extracts the member it is asked for, silently and with status 0.\<close>

definition extracts_member ::
  "world \<Rightarrow> string list \<Rightarrow> path \<Rightarrow> exn + (int \<times> string \<times> path list)" where
  "extracts_member w args cwd = Inr (0, [], [snd (os_path_split (last args))])"

definition never_refused :: "world \<Rightarrow> path \<Rightarrow> exn option" where
  "never_refused w p = None"

definition always_refused :: "world \<Rightarrow> path \<Rightarrow> exn option" where
  "always_refused w p = Some (OSError ''Device or resource busy'')"

text \<open>Other behaviours of \<^verbatim>\<open>7z\<close>: a diagnostic with status 0; a silent status 2; the second
  call failing; a warning with status 0 on the second call; nothing extracted although
  status 0 and no diagnostic; the executable missing.\<close>

definition reports_error ::
  "world \<Rightarrow> string list \<Rightarrow> path \<Rightarrow> exn + (int \<times> string \<times> path list)" where
  "reports_error w args cwd = Inr (0, ''ERROR: cannot open the file as archive'', [])"

definition silent_status2 ::
  "world \<Rightarrow> string list \<Rightarrow> path \<Rightarrow> exn + (int \<times> string \<times> path list)" where
  "silent_status2 w args cwd = Inr (2, [], [])"

definition second_call_fails ::
  "world \<Rightarrow> string list \<Rightarrow> path \<Rightarrow> exn + (int \<times> string \<times> path list)" where
  "second_call_fails w args cwd =
     (if last args = ''sources/install.wim'' then Inr (0, [], [''install.wim''])
      else Inr (2, ''ERROR: no files to process'', []))"

definition second_call_warns ::
  "world \<Rightarrow> string list \<Rightarrow> path \<Rightarrow> exn + (int \<times> string \<times> path list)" where
  "second_call_warns w args cwd =
     (if last args = ''sources/install.wim'' then Inr (0, [], [''install.wim''])
      else Inr (0, ''WARNING: headers error'', [''ntoskrnl.exe'']))"

definition extracts_nothing ::
  "world \<Rightarrow> string list \<Rightarrow> path \<Rightarrow> exn + (int \<times> string \<times> path list)" where
  "extracts_nothing w args cwd = Inr (0, [], [])"

definition not_installed ::
  "world \<Rightarrow> string list \<Rightarrow> path \<Rightarrow> exn + (int \<times> string \<times> path list)" where
  "not_installed w args cwd = Inl (OSError ''No such file or directory: 7z'')"

text \<open>A world in which a workspace holding an extracted container is still there, and the
  object that owns it.\<close>

definition workspace_world :: world where
  "workspace_world =
     example_world\<lparr>dirs := {''/tmp/tmpA'', ''/in'', ''/out''},
                   files := {''/tmp/tmpA/install.wim'',
                             ''/in/en_windows_7_enterprise_with_sp1_x64_dvd_u_677651.iso''}\<rparr>"

definition open_workspace :: TemporaryDirectory where
  "open_workspace = \<lparr>name = Some ''/tmp/tmpA'', closed = False\<rparr>"

definition example_args :: args where
  "example_args = \<lparr>args_iso_dir = ''/in'', args_output_dir = ''/out''\<rparr>"

text \<open>A standard output with the ASCII encoding, which cannot encode the marks, and a move
  that is refused after the destination was written.\<close>

fun ascii_stdout :: "message \<Rightarrow> exn option" where
  "ascii_stdout (ExtractingMsg i) = None"
| "ascii_stdout (CleanupErrorMsg e n) = None"
| "ascii_stdout (ImplicitCleanupMsg n) = None"
| "ascii_stdout m = Some (UnicodeEncodeError ''ascii codec cannot encode character'')"

definition unlink_refused :: "world \<Rightarrow> path \<Rightarrow> path \<Rightarrow> (exn \<times> bool) option" where
  "unlink_refused w src dst = Some (OSError ''Permission denied'', True)"

section \<open>Library operations\<close>

lemma in_tree_self [simp]: "in_tree t t"
  by (simp add: in_tree_def)

lemma join_plain:
  "t \<noteq> [] \<Longrightarrow> last t \<noteq> CHR ''/'' \<Longrightarrow> plain_name f \<Longrightarrow> os_path_join t f = t @ ''/'' @ f"
  by (cases f) (auto simp: os_path_join_def plain_name_def)

lemma in_tree_join_plain:
  "t \<noteq> [] \<Longrightarrow> last t \<noteq> CHR ''/'' \<Longrightarrow> plain_name f \<Longrightarrow> in_tree t (os_path_join t f)"
  by (simp add: join_plain in_tree_def)

lemma outside_fresh: "fresh w t \<Longrightarrow> outside t (files w) = files w \<and> outside t (dirs w) = dirs w"
  by (auto simp: fresh_def outside_def)

lemma outside_insert_in: "in_tree t p \<Longrightarrow> outside t (insert p S) = outside t S"
  by (auto simp: outside_def)

lemma outside_insert_out: "\<not> in_tree t p \<Longrightarrow> outside t (insert p S) = insert p (outside t S)"
  by (auto simp: outside_def)

lemma outside_Un: "outside t (A \<union> B) = outside t A \<union> outside t B"
  by (auto simp: outside_def)

lemma outside_written:
  "t \<noteq> [] \<Longrightarrow> last t \<noteq> CHR ''/'' \<Longrightarrow> \<forall>f \<in> S. plain_name f \<Longrightarrow>
   outside t (os_path_join t ` S) = {}"
  by (auto simp: outside_def in_tree_join_plain)

lemma mkdtemp_ok:
  "mkdtemp_result E w = Inr t \<Longrightarrow> fresh w t \<Longrightarrow>
   tempfile_mkdtemp E w = (Inr t, w\<lparr>dirs := insert t (dirs w), trace := trace w @ [Mkdtemp]\<rparr>)"
  by (simp add: tempfile_mkdtemp_def)

lemma mkdtemp_fail_frame:
  "tempfile_mkdtemp E w = (Inl e, w1) \<Longrightarrow> w1 = w\<lparr>trace := trace w @ [Mkdtemp]\<rparr>"
  by (auto simp: tempfile_mkdtemp_def Let_def split: sum.splits if_splits)

lemma mkdtemp_ok_iff:
  "tempfile_mkdtemp E w = (Inr t, w1) \<Longrightarrow>
   mkdtemp_result E w = Inr t \<and> fresh w t \<and>
   w1 = w\<lparr>dirs := insert t (dirs w), trace := trace w @ [Mkdtemp]\<rparr>"
  by (auto simp: tempfile_mkdtemp_def Let_def split: sum.splits if_splits)

lemma popen_frame:
  assumes "subprocess_Popen E args cwd w = (r, w')"
  shows "dirs w' = dirs w" and "sys_stdout w' = sys_stdout w" and "sys_stderr w' = sys_stderr w"
    and "trace w' = trace w @ [Popen args cwd]"
  using assms
  by (auto simp: subprocess_Popen_def Let_def split: sum.splits prod.splits)

lemma popen_files:
  assumes "subprocess_Popen E args cwd w = (r, w')"
  shows "\<exists>S. files w' = files w \<union> os_path_join cwd ` S \<and> (\<forall>f \<in> S. plain_name f)"
proof (cases "popen_result E w args cwd")
  case (Inl e)
  with assms have "files w' = files w \<union> os_path_join cwd ` {}"
    by (auto simp: subprocess_Popen_def Let_def)
  then show ?thesis by blast
next
  case (Inr x)
  obtain rc err wr where x: "x = (rc, err, wr)" by (cases x)
  with Inr assms
  have "files w' = files w \<union> os_path_join cwd ` {f \<in> set wr. plain_name f}"
    by (auto simp: subprocess_Popen_def Let_def)
  then show ?thesis by blast
qed

lemma popen_outside:
  assumes "subprocess_Popen E args t w = (r, w')" and "t \<noteq> []" and "last t \<noteq> CHR ''/''"
  shows "outside t (files w') = outside t (files w)"
proof -
  from popen_files[OF assms(1)] obtain S
    where "files w' = files w \<union> os_path_join t ` S" and "\<forall>f \<in> S. plain_name f" by blast
  then show ?thesis using assms(2,3) by (simp add: outside_Un outside_written)
qed

lemma seven_zip_extract_Some:
  "t \<noteq> [] \<Longrightarrow> seven_zip_extract E source fs (Some t) w =
     subprocess_Popen E ([''7z'', ''e'', source] @ fs) t w"
  by (simp add: seven_zip_extract_def)

lemma move_frame:
  assumes "shutil_move E src dst w = (r, w')"
  shows "dirs w' = dirs w" and "sys_stdout w' = sys_stdout w" and "sys_stderr w' = sys_stderr w"
    and "trace w' = trace w @ [Move src dst]"
  using assms
  by (auto simp: shutil_move_def Let_def split: if_splits option.splits prod.splits)

lemma print_ok:
  "print_fault E m = None \<Longrightarrow>
   print_unicode E m w = (Inr (), w\<lparr>sys_stdout := sys_stdout w @ [m]\<rparr>)"
  by (simp add: print_unicode_def)

lemma print_fail: "print_fault E m = Some e \<Longrightarrow> print_unicode E m w = (Inl e, w)"
  by (simp add: print_unicode_def)

lemma print_fst:
  "fst (print_unicode E m w) = (case print_fault E m of None \<Rightarrow> Inr () | Some e \<Rightarrow> Inl e)"
  by (simp add: print_unicode_def split: option.splits)

lemma print_frame:
  "dirs (snd (print_unicode E m w)) = dirs w"
  "files (snd (print_unicode E m w)) = files w"
  "sys_stderr (snd (print_unicode E m w)) = sys_stderr w"
  "trace (snd (print_unicode E m w)) = trace w"
  by (simp_all add: print_unicode_def split: option.splits)

lemma move_ok:
  "src \<in> files w \<Longrightarrow> dst \<notin> dirs w \<Longrightarrow> move_fault E w src dst = None \<Longrightarrow>
   shutil_move E src dst w =
     (Inr dst, w\<lparr>files := insert dst (files w - {src}), trace := trace w @ [Move src dst]\<rparr>)"
  by (simp add: shutil_move_def os_path_isdir_def)

lemma rmtree_frame:
  assumes "shutil_rmtree E t w = (r, w')"
  shows "sys_stdout w' = sys_stdout w" and "sys_stderr w' = sys_stderr w"
    and "trace w' = trace w @ [Rmtree t]"
    and "outside t (files w') = outside t (files w)" and "outside t (dirs w') = outside t (dirs w)"
    and "files w' \<subseteq> files w" and "dirs w' \<subseteq> dirs w"
  using assms
  by (auto simp: shutil_rmtree_def Let_def outside_def split: if_splits option.splits)

lemma rmtree_ok:
  "t \<in> dirs w \<Longrightarrow> rmtree_fault E w t = None \<Longrightarrow>
   shutil_rmtree E t w =
     (Inr (), w\<lparr>dirs := {d \<in> dirs w. \<not> in_tree t d}, files := {f \<in> files w. \<not> in_tree t f},
                trace := trace w @ [Rmtree t]\<rparr>)"
  by (simp add: shutil_rmtree_def)

lemma rmtree_fail_frame:
  "shutil_rmtree E t w = (Inl e, w') \<Longrightarrow> w' = w\<lparr>trace := trace w @ [Rmtree t]\<rparr>"
  by (auto simp: shutil_rmtree_def Let_def split: if_splits option.splits)

lemma rmtree_gone:
  "shutil_rmtree E t w = (Inr u, w') \<Longrightarrow> t \<in> dirs w \<and> (\<forall>p \<in> dirs w' \<union> files w'. \<not> in_tree t p)"
  by (auto simp: shutil_rmtree_def Let_def split: if_splits option.splits)


section \<open>Observations are stable under cleanup\<close>

lemma calls_made_rmtree: "trace w' = trace w @ [Rmtree t] \<Longrightarrow> calls_made w' = calls_made w"
  by (simp add: calls_made_def)

lemma obs_stderr_update [simp]:
  "calls_made (w\<lparr>sys_stderr := e\<rparr>) = calls_made w"
  "outcome_msgs (w\<lparr>sys_stderr := e\<rparr>) = outcome_msgs w"
  "attempted (w\<lparr>sys_stderr := e\<rparr>) = attempted w"
  by (simp_all add: calls_made_def outcome_msgs_def attempted_def)

lemma obs_stdout_update [simp]:
  "calls_made (w\<lparr>sys_stdout := e\<rparr>) = calls_made w"
  "outcome_msgs (w\<lparr>sys_stdout := sys_stdout w @ ms\<rparr>) =
     outcome_msgs w @ filter (\<lambda>m. \<not> is_cleanup_msg m) ms"
  "attempted (w\<lparr>sys_stdout := sys_stdout w @ ms\<rparr>) = attempted w @ concat (map attempted_of ms)"
  by (simp_all add: calls_made_def outcome_msgs_def attempted_def)

lemma obs_eq_stdout:
  "sys_stdout w' = sys_stdout w \<Longrightarrow> outcome_msgs w' = outcome_msgs w \<and> attempted w' = attempted w"
  by (simp add: outcome_msgs_def attempted_def)

lemma print_obs:
  "calls_made (snd (print_unicode E m w)) = calls_made w"
  "outcome_msgs (snd (print_unicode E m w)) =
     outcome_msgs w @ (if print_fault E m = None \<and> \<not> is_cleanup_msg m then [m] else [])"
  "attempted (snd (print_unicode E m w)) =
     attempted w @ (if print_fault E m = None then attempted_of m else [])"
  by (simp_all add: print_unicode_def calls_made_def outcome_msgs_def attempted_def
      split: option.splits)

lemma cleanup_closed: "closed self \<Longrightarrow> cleanup E warn self w = (Inr (), self, w)"
  by (simp add: cleanup_def split: option.splits)

lemma cleanup_None: "name self = None \<Longrightarrow> cleanup E warn self w = (Inr (), self, w)"
  by (simp add: cleanup_def)

lemma cleanup_open:
  "name self = Some t \<Longrightarrow> t \<noteq> [] \<Longrightarrow> \<not> closed self \<Longrightarrow>
   cleanup E warn self w =
     (case shutil_rmtree E t w of
        (Inl e, w1) \<Rightarrow>
          (Inr (), self, w1\<lparr>sys_stderr := sys_stderr w1 @ [CleanupErrorMsg e (Some t)]\<rparr>)
      | (Inr u, w1) \<Rightarrow>
          (Inr (), self\<lparr>closed := True\<rparr>,
           if warn then w1\<lparr>sys_stdout := sys_stdout w1 @ [ImplicitCleanupMsg (Some t)]\<rparr>
           else w1))"
  by (simp add: cleanup_def Let_def split: prod.splits sum.splits)

lemma cleanup_frame:
  assumes c: "cleanup E warn self w = (r, self', w')"
  shows "r = Inr ()" and "name self' = name self" and "closed self \<longrightarrow> closed self'"
    and "calls_made w' = calls_made w" and "outcome_msgs w' = outcome_msgs w"
    and "attempted w' = attempted w"
    and "files w' \<subseteq> files w" and "dirs w' \<subseteq> dirs w"
    and "name self = Some t \<longrightarrow> outside t (files w') = outside t (files w)"
    and "name self = Some t \<longrightarrow> outside t (dirs w') = outside t (dirs w)"
proof -
  have "r = Inr () \<and> name self' = name self \<and> (closed self \<longrightarrow> closed self') \<and>
        calls_made w' = calls_made w \<and> outcome_msgs w' = outcome_msgs w \<and>
        attempted w' = attempted w \<and> files w' \<subseteq> files w \<and> dirs w' \<subseteq> dirs w \<and>
        (name self = Some t \<longrightarrow> outside t (files w') = outside t (files w)) \<and>
        (name self = Some t \<longrightarrow> outside t (dirs w') = outside t (dirs w))"
  proof (cases "name self")
    case None
    with c show ?thesis by (simp add: cleanup_def)
  next
    case (Some n)
    show ?thesis
    proof (cases "n \<noteq> [] \<and> \<not> closed self")
      case False
      with c Some show ?thesis by (auto simp: cleanup_def)
    next
      case True
      obtain x w1 where rm: "shutil_rmtree E n w = (x, w1)" by (cases "shutil_rmtree E n w")
      note fr = rmtree_frame[OF rm]
      have cm: "calls_made w1 = calls_made w" using fr(3) by (rule calls_made_rmtree)
      have ob: "outcome_msgs w1 = outcome_msgs w \<and> attempted w1 = attempted w"
        using fr(1) by (rule obs_eq_stdout)
      show ?thesis
      proof (cases x)
        case (Inl e)
        with c Some True rm have "r = Inr ()" "self' = self"
          "w' = w1\<lparr>sys_stderr := sys_stderr w1 @ [CleanupErrorMsg e (name self)]\<rparr>"
          by (auto simp: cleanup_open)
        with cm ob fr Some show ?thesis by auto
      next
        case (Inr u)
        with c Some True rm have "r = Inr ()" "self' = self\<lparr>closed := True\<rparr>"
          "w' = (if warn
                 then w1\<lparr>sys_stdout := sys_stdout w1 @ [ImplicitCleanupMsg (Some n)]\<rparr>
                 else w1)"
          by (auto simp: cleanup_open)
        with cm fr Some show ?thesis
          by (auto simp: outcome_msgs_def attempted_def calls_made_def)
      qed
    qed
  qed
  then show "r = Inr ()" and "name self' = name self" and "closed self \<longrightarrow> closed self'"
    and "calls_made w' = calls_made w" and "outcome_msgs w' = outcome_msgs w"
    and "attempted w' = attempted w"
    and "files w' \<subseteq> files w" and "dirs w' \<subseteq> dirs w"
    and "name self = Some t \<longrightarrow> outside t (files w') = outside t (files w)"
    and "name self = Some t \<longrightarrow> outside t (dirs w') = outside t (dirs w)"
    by simp_all
qed

lemma cleanup_trace:
  assumes "cleanup E warn self w = (r, self', w')" and "name self = Some t" and "t \<noteq> []"
    and "\<not> closed self"
  shows "prefix (trace w @ [Rmtree t]) (trace w')"
proof -
  obtain x w1 where rm: "shutil_rmtree E t w = (x, w1)" by (cases "shutil_rmtree E t w")
  from rmtree_frame(3)[OF rm] assms rm show ?thesis
    by (cases x) (auto simp: cleanup_open split: if_splits)
qed

lemma cleanup_trace_mono:
  assumes "cleanup E warn self w = (r, self', w')"
  shows "prefix (trace w) (trace w')"
proof (cases "name self")
  case None
  with assms show ?thesis by (simp add: cleanup_None)
next
  case (Some n)
  show ?thesis
  proof (cases "n \<noteq> [] \<and> \<not> closed self")
    case False
    with assms Some show ?thesis by (auto simp: cleanup_def)
  next
    case True
    with cleanup_trace[OF assms Some] have "prefix (trace w @ [Rmtree n]) (trace w')" by simp
    then show ?thesis by (rule append_prefixD)
  qed
qed

lemma cleanup_removes:
  assumes c: "cleanup E warn self w = (r, self', w')" and n: "name self = Some t" "t \<noteq> []"
    and o: "\<not> closed self" and d: "t \<in> dirs w" and f: "rmtree_fault E w t = None"
  shows "closed self' \<and> (\<forall>p \<in> dirs w' \<union> files w'. \<not> in_tree t p)"
  using c n o by (auto simp: cleanup_open rmtree_ok[OF d f] split: if_splits)


section \<open>The body of the with statement, path by path\<close>

lemma with_body_cases
  [consumes 1, case_names raise1 skip1 unprinted1 raise2 skip2 unprinted2 raise3 success]:
  assumes t: "t \<noteq> []"
  obtains
    (raise1) e w2 where
      "subprocess_Popen E [''7z'', ''e'', ip, c] t
         (w\<lparr>sys_stdout := sys_stdout w @ [ExtractingMsg i]\<rparr>) = (Inl e, w2)"
      "with_body E ip od (i, c, k) (Some t) w = (Inl e, w2)"
  | (skip1) rc err w2 where
      "subprocess_Popen E [''7z'', ''e'', ip, c] t
         (w\<lparr>sys_stdout := sys_stdout w @ [ExtractingMsg i]\<rparr>) = (Inr (rc, err), w2)"
      "err \<noteq> []" "print_fault E (Hop1FailedMsg c i err) = None"
      "with_body E ip od (i, c, k) (Some t) w =
         (Inr Continue, w2\<lparr>sys_stdout := sys_stdout w2 @ [Hop1FailedMsg c i err]\<rparr>)"
  | (unprinted1) rc err w2 e where
      "subprocess_Popen E [''7z'', ''e'', ip, c] t
         (w\<lparr>sys_stdout := sys_stdout w @ [ExtractingMsg i]\<rparr>) = (Inr (rc, err), w2)"
      "err \<noteq> []" "print_fault E (Hop1FailedMsg c i err) = Some e"
      "with_body E ip od (i, c, k) (Some t) w = (Inl e, w2)"
  | (raise2) rc w2 e w3 where
      "subprocess_Popen E [''7z'', ''e'', ip, c] t
         (w\<lparr>sys_stdout := sys_stdout w @ [ExtractingMsg i]\<rparr>) = (Inr (rc, []), w2)"
      "subprocess_Popen E [''7z'', ''e'', os_path_join t (snd (os_path_split c)), k] t w2 =
         (Inl e, w3)"
      "with_body E ip od (i, c, k) (Some t) w = (Inl e, w3)"
  | (skip2) rc w2 rc2 err2 w3 where
      "subprocess_Popen E [''7z'', ''e'', ip, c] t
         (w\<lparr>sys_stdout := sys_stdout w @ [ExtractingMsg i]\<rparr>) = (Inr (rc, []), w2)"
      "subprocess_Popen E [''7z'', ''e'', os_path_join t (snd (os_path_split c)), k] t w2 =
         (Inr (rc2, err2), w3)"
      "rc2 \<noteq> 0" "print_fault E (Hop2FailedMsg (snd (os_path_split c)) err2) = None"
      "with_body E ip od (i, c, k) (Some t) w =
         (Inr Continue,
          w3\<lparr>sys_stdout := sys_stdout w3 @ [Hop2FailedMsg (snd (os_path_split c)) err2]\<rparr>)"
  | (unprinted2) rc w2 rc2 err2 w3 e where
      "subprocess_Popen E [''7z'', ''e'', ip, c] t
         (w\<lparr>sys_stdout := sys_stdout w @ [ExtractingMsg i]\<rparr>) = (Inr (rc, []), w2)"
      "subprocess_Popen E [''7z'', ''e'', os_path_join t (snd (os_path_split c)), k] t w2 =
         (Inr (rc2, err2), w3)"
      "rc2 \<noteq> 0" "print_fault E (Hop2FailedMsg (snd (os_path_split c)) err2) = Some e"
      "with_body E ip od (i, c, k) (Some t) w = (Inl e, w3)"
  | (raise3) rc w2 err2 w3 e w4 where
      "subprocess_Popen E [''7z'', ''e'', ip, c] t
         (w\<lparr>sys_stdout := sys_stdout w @ [ExtractingMsg i]\<rparr>) = (Inr (rc, []), w2)"
      "subprocess_Popen E [''7z'', ''e'', os_path_join t (snd (os_path_split c)), k] t w2 =
         (Inr (0, err2), w3)"
      "shutil_move E (os_path_join t ''ntoskrnl.exe'')
         (os_path_join od (fst (os_path_splitext i) @ ''_ntoskrnl.exe'')) w3 = (Inl e, w4)"
      "with_body E ip od (i, c, k) (Some t) w = (Inl e, w4)"
  | (success) rc w2 err2 w3 rd w4 where
      "subprocess_Popen E [''7z'', ''e'', ip, c] t
         (w\<lparr>sys_stdout := sys_stdout w @ [ExtractingMsg i]\<rparr>) = (Inr (rc, []), w2)"
      "subprocess_Popen E [''7z'', ''e'', os_path_join t (snd (os_path_split c)), k] t w2 =
         (Inr (0, err2), w3)"
      "shutil_move E (os_path_join t ''ntoskrnl.exe'')
         (os_path_join od (fst (os_path_splitext i) @ ''_ntoskrnl.exe'')) w3 = (Inr rd, w4)"
      "with_body E ip od (i, c, k) (Some t) w = (Inr Normal, w4)"
proof -
  let ?w1 = "w\<lparr>sys_stdout := sys_stdout w @ [ExtractingMsg i]\<rparr>"
  obtain r1 w2 where h1: "subprocess_Popen E [''7z'', ''e'', ip, c] t ?w1 = (r1, w2)"
    by (cases "subprocess_Popen E [''7z'', ''e'', ip, c] t ?w1")
  show thesis
  proof (cases r1)
    case (Inl e)
    with h1 t have "with_body E ip od (i, c, k) (Some t) w = (Inl e, w2)"
      by (simp add: with_body_def seven_zip_extract_Some)
    with h1 Inl show thesis by (auto intro: raise1)
  next
    case (Inr p)
    obtain rc err where p: "p = (rc, err)" by (cases p)
    show thesis
    proof (cases "err = []")
      case False
      note ne = False
      show thesis
      proof (cases "print_fault E (Hop1FailedMsg c i err)")
        case None
        with h1 Inr p t ne have "with_body E ip od (i, c, k) (Some t) w =
            (Inr Continue, w2\<lparr>sys_stdout := sys_stdout w2 @ [Hop1FailedMsg c i err]\<rparr>)"
          by (simp add: with_body_def seven_zip_extract_Some print_ok)
        with h1 Inr p ne None show thesis by (auto intro: skip1)
      next
        case (Some e)
        with h1 Inr p t ne have "with_body E ip od (i, c, k) (Some t) w = (Inl e, w2)"
          by (simp add: with_body_def seven_zip_extract_Some print_fail)
        with h1 Inr p ne Some show thesis by (auto intro: unprinted1)
      qed
    next
      case True
      note e1 = True
      obtain r2 w3 where h2:
        "subprocess_Popen E [''7z'', ''e'', os_path_join t (snd (os_path_split c)), k] t w2 =
           (r2, w3)"
        by (cases "subprocess_Popen E
                     [''7z'', ''e'', os_path_join t (snd (os_path_split c)), k] t w2")
      show thesis
      proof (cases r2)
        case (Inl e)
        with h1 Inr p e1 h2 t have "with_body E ip od (i, c, k) (Some t) w = (Inl e, w3)"
          by (simp add: with_body_def seven_zip_extract_Some Let_def)
        with h1 Inr p e1 h2 Inl show thesis by (auto intro: raise2)
      next
        case (Inr q)
        note r2 = Inr
        obtain rc2 err2 where q: "q = (rc2, err2)" by (cases q)
        show thesis
        proof (cases "rc2 = 0")
          case False
          note nz = False
          show thesis
          proof (cases "print_fault E (Hop2FailedMsg (snd (os_path_split c)) err2)")
            case None
            with h1 \<open>r1 = Inr p\<close> p e1 h2 r2 q t nz
            have "with_body E ip od (i, c, k) (Some t) w =
               (Inr Continue,
                w3\<lparr>sys_stdout := sys_stdout w3 @
                     [Hop2FailedMsg (snd (os_path_split c)) err2]\<rparr>)"
              by (simp add: with_body_def seven_zip_extract_Some Let_def print_ok)
            with h1 \<open>r1 = Inr p\<close> p e1 h2 r2 q nz None show thesis by (auto intro: skip2)
          next
            case (Some e)
            with h1 \<open>r1 = Inr p\<close> p e1 h2 r2 q t nz
            have "with_body E ip od (i, c, k) (Some t) w = (Inl e, w3)"
              by (simp add: with_body_def seven_zip_extract_Some Let_def print_fail)
            with h1 \<open>r1 = Inr p\<close> p e1 h2 r2 q nz Some show thesis
              by (auto intro: unprinted2)
          qed
        next
          case True
          note z = True
          obtain r3 w4 where mv:
            "shutil_move E (os_path_join t ''ntoskrnl.exe'')
               (os_path_join od (fst (os_path_splitext i) @ ''_ntoskrnl.exe'')) w3 = (r3, w4)"
            by (cases "shutil_move E (os_path_join t ''ntoskrnl.exe'')
               (os_path_join od (fst (os_path_splitext i) @ ''_ntoskrnl.exe'')) w3")
          show thesis
          proof (cases r3)
            case (Inl e)
            with h1 \<open>r1 = Inr p\<close> p e1 h2 r2 q z mv t
            have "with_body E ip od (i, c, k) (Some t) w = (Inl e, w4)"
              by (simp add: with_body_def seven_zip_extract_Some Let_def)
            with h1 \<open>r1 = Inr p\<close> p e1 h2 r2 q z mv Inl show thesis by (auto intro: raise3)
          next
            case (Inr rd)
            with h1 \<open>r1 = Inr p\<close> p e1 h2 r2 q z mv t
            have "with_body E ip od (i, c, k) (Some t) w = (Inr Normal, w4)"
              by (simp add: with_body_def seven_zip_extract_Some Let_def)
            with h1 \<open>r1 = Inr p\<close> p e1 h2 r2 q z mv Inr show thesis by (auto intro: success)
          qed
        qed
      qed
    qed
  qed
qed

lemma trace_ext_calls_made:
  "trace w' = trace w @ cs \<Longrightarrow> \<forall>x \<in> set cs. \<not> is_rmtree x \<Longrightarrow> calls_made w' = calls_made w @ cs"
  by (simp add: calls_made_def)

lemma with_body_frame:
  assumes wb: "with_body E ip od (i, c, k) (Some t) w = (r, w2)"
    and t: "t \<noteq> []" "last t \<noteq> CHR ''/''"
  shows "dirs w2 = dirs w" and "sys_stderr w2 = sys_stderr w"
    and "attempted w2 = attempted w @ [i]"
    and "\<exists>cs. trace w2 = trace w @ cs \<and> (\<forall>x \<in> set cs. \<not> is_rmtree x)"
    and "outside t (files w2) \<noteq> outside t (files w) \<longrightarrow>
           trace w2 = trace w @
             [Popen [''7z'', ''e'', ip, c] t,
              Popen [''7z'', ''e'', os_path_join t (snd (os_path_split c)), k] t,
              Move (os_path_join t ''ntoskrnl.exe'')
                   (os_path_join od (fst (os_path_splitext i) @ ''_ntoskrnl.exe''))]"
    and "r \<noteq> Inr Continue \<longrightarrow> outcome_msgs w2 = outcome_msgs w @ [ExtractingMsg i]"
    and "r = Inr Continue \<longrightarrow> outside t (files w2) = outside t (files w)"
proof -
  let ?M = "Move (os_path_join t ''ntoskrnl.exe'')
                 (os_path_join od (fst (os_path_splitext i) @ ''_ntoskrnl.exe''))"
  let ?P1 = "Popen [''7z'', ''e'', ip, c] t"
  let ?P2 = "Popen [''7z'', ''e'', os_path_join t (snd (os_path_split c)), k] t"
  have "dirs w2 = dirs w \<and> sys_stderr w2 = sys_stderr w \<and> attempted w2 = attempted w @ [i] \<and>
        (\<exists>cs. trace w2 = trace w @ cs \<and> (\<forall>x \<in> set cs. \<not> is_rmtree x)) \<and>
        (outside t (files w2) \<noteq> outside t (files w) \<longrightarrow> trace w2 = trace w @ [?P1, ?P2, ?M]) \<and>
        (r \<noteq> Inr Continue \<longrightarrow> outcome_msgs w2 = outcome_msgs w @ [ExtractingMsg i]) \<and>
        (r = Inr Continue \<longrightarrow> outside t (files w2) = outside t (files w))"
    using t(1)
  proof (cases rule: with_body_cases[where E = E and ip = ip and c = c and w = w and i = i
                        and od = od and k = k and t = t])
    case (raise1 e v2)
    note f = popen_frame[OF raise1(1)] popen_outside[OF raise1(1) t]
    from raise1(2) wb have "r = Inl e" "w2 = v2" by simp_all
    with f show ?thesis by (simp add: attempted_def outcome_msgs_def)
  next
    case (skip1 rc err v2)
    note f = popen_frame[OF skip1(1)] popen_outside[OF skip1(1) t]
    from skip1(4) wb have "r = Inr Continue"
      "w2 = v2\<lparr>sys_stdout := sys_stdout v2 @ [Hop1FailedMsg c i err]\<rparr>" by simp_all
    with f show ?thesis by (simp add: attempted_def outcome_msgs_def)
  next
    case (unprinted1 rc err v2 e)
    note f = popen_frame[OF unprinted1(1)] popen_outside[OF unprinted1(1) t]
    from unprinted1(4) wb have "r = Inl e" "w2 = v2" by simp_all
    with f show ?thesis by (simp add: attempted_def outcome_msgs_def)
  next
    case (raise2 rc v2 e v3)
    note f = popen_frame[OF raise2(1)] popen_outside[OF raise2(1) t]
    note g = popen_frame[OF raise2(2)] popen_outside[OF raise2(2) t]
    from raise2(3) wb have "r = Inl e" "w2 = v3" by simp_all
    with f g show ?thesis by (simp add: attempted_def outcome_msgs_def)
  next
    case (skip2 rc v2 rc2 err2 v3)
    note f = popen_frame[OF skip2(1)] popen_outside[OF skip2(1) t]
    note g = popen_frame[OF skip2(2)] popen_outside[OF skip2(2) t]
    from skip2(5) wb have "r = Inr Continue"
      "w2 = v3\<lparr>sys_stdout := sys_stdout v3 @ [Hop2FailedMsg (snd (os_path_split c)) err2]\<rparr>"
      by simp_all
    with f g show ?thesis by (simp add: attempted_def outcome_msgs_def)
  next
    case (unprinted2 rc v2 rc2 err2 v3 e)
    note f = popen_frame[OF unprinted2(1)] popen_outside[OF unprinted2(1) t]
    note g = popen_frame[OF unprinted2(2)] popen_outside[OF unprinted2(2) t]
    from unprinted2(5) wb have "r = Inl e" "w2 = v3" by simp_all
    with f g show ?thesis by (simp add: attempted_def outcome_msgs_def)
  next
    case (raise3 rc v2 err2 v3 e v4)
    note f = popen_frame[OF raise3(1)]
    note g = popen_frame[OF raise3(2)]
    note h = move_frame[OF raise3(3)]
    from raise3(4) wb have "r = Inl e" "w2 = v4" by simp_all
    with f g h show ?thesis by (simp add: attempted_def outcome_msgs_def)
  next
    case (success rc v2 err2 v3 rd v4)
    note f = popen_frame[OF success(1)]
    note g = popen_frame[OF success(2)]
    note h = move_frame[OF success(3)]
    from success(4) wb have "r = Inr Normal" "w2 = v4" by simp_all
    with f g h show ?thesis by (simp add: attempted_def outcome_msgs_def)
  qed
  then show "dirs w2 = dirs w" and "sys_stderr w2 = sys_stderr w"
    and "attempted w2 = attempted w @ [i]"
    and "\<exists>cs. trace w2 = trace w @ cs \<and> (\<forall>x \<in> set cs. \<not> is_rmtree x)"
    and "outside t (files w2) \<noteq> outside t (files w) \<longrightarrow>
           trace w2 = trace w @
             [Popen [''7z'', ''e'', ip, c] t,
              Popen [''7z'', ''e'', os_path_join t (snd (os_path_split c)), k] t,
              Move (os_path_join t ''ntoskrnl.exe'')
                   (os_path_join od (fst (os_path_splitext i) @ ''_ntoskrnl.exe''))]"
    and "r \<noteq> Inr Continue \<longrightarrow> outcome_msgs w2 = outcome_msgs w @ [ExtractingMsg i]"
    and "r = Inr Continue \<longrightarrow> outside t (files w2) = outside t (files w)"
    by simp_all
qed

section \<open>One iteration on an archive that exists\<close>

lemma release_frame:
  assumes ex: "TemporaryDirectory_exit E \<lparr>name = Some t, closed = False\<rparr> w2 = (x, self', w3)"
    and dl: "TemporaryDirectory_del E self' w3 = (y, self'', w4)"
    and t: "t \<noteq> []"
  shows "x = Inr ()" and "calls_made w4 = calls_made w2" and "outcome_msgs w4 = outcome_msgs w2"
    and "attempted w4 = attempted w2"
    and "outside t (files w4) = outside t (files w2)"
    and "outside t (dirs w4) = outside t (dirs w2)"
    and "files w4 \<subseteq> files w2" and "dirs w4 \<subseteq> dirs w2"
    and "prefix (trace w2 @ [Rmtree t]) (trace w4)"
    and "t \<in> dirs w2 \<longrightarrow> rmtree_fault E w2 t = None \<longrightarrow>
           (\<forall>p \<in> dirs w4 \<union> files w4. \<not> in_tree t p)"
proof -
  from ex have c1: "cleanup E False \<lparr>name = Some t, closed = False\<rparr> w2 = (x, self', w3)"
    by (simp add: TemporaryDirectory_exit_def)
  from dl have c2: "cleanup E True self' w3 = (y, self'', w4)"
    by (simp add: TemporaryDirectory_del_def)
  note a = cleanup_frame[OF c1]
  from a(2) have n: "name self' = Some t" by simp
  note b = cleanup_frame[OF c2]
  show "x = Inr ()" by (rule a(1))
  show "calls_made w4 = calls_made w2" using a(4) b(4) by simp
  show "outcome_msgs w4 = outcome_msgs w2" using a(5) b(5) by simp
  show "attempted w4 = attempted w2" using a(6) b(6) by simp
  show "outside t (files w4) = outside t (files w2)" using a(9) b(9) n by simp
  show "outside t (dirs w4) = outside t (dirs w2)" using a(10) b(10) n by simp
  show "files w4 \<subseteq> files w2" using a(7) b(7) by blast
  show "dirs w4 \<subseteq> dirs w2" using a(8) b(8) by blast
  have "prefix (trace w2 @ [Rmtree t]) (trace w3)"
    using cleanup_trace[OF c1] t by simp
  moreover have "prefix (trace w3) (trace w4)" by (rule cleanup_trace_mono[OF c2])
  ultimately show "prefix (trace w2 @ [Rmtree t]) (trace w4)" by (rule prefix_order.trans)
  show "t \<in> dirs w2 \<longrightarrow> rmtree_fault E w2 t = None \<longrightarrow>
           (\<forall>p \<in> dirs w4 \<union> files w4. \<not> in_tree t p)"
  proof (intro impI)
    assume d: "t \<in> dirs w2" and f: "rmtree_fault E w2 t = None"
    from cleanup_removes[OF c1 _ t _ d f]
    have "closed self'" and g: "\<forall>p \<in> dirs w3 \<union> files w3. \<not> in_tree t p" by simp_all
    with c2 have "w4 = w3" by (simp add: cleanup_closed)
    with g show "\<forall>p \<in> dirs w4 \<union> files w4. \<not> in_tree t p" by simp
  qed
qed

lemma loop_body_absent:
  "\<not> os_path_isfile w (os_path_join d (fst ent)) \<Longrightarrow>
   loop_body E d od ent w = print_unicode E (NotFoundMsg (fst ent)) w"
  by (simp add: loop_body_def Let_def)

lemma loop_body_init_fails:
  assumes p: "os_path_isfile w (os_path_join d (fst ent))"
    and mk: "tempfile_mkdtemp E w = (Inl e, w1)"
  shows "loop_body E d od ent w = (Inl e, w\<lparr>trace := trace w @ [Mkdtemp]\<rparr>)"
  using p mk mkdtemp_fail_frame[OF mk]
  by (simp add: loop_body_def Let_def TemporaryDirectory_init_def TemporaryDirectory_del_def
      cleanup_None)

lemma loop_body_present:
  assumes p: "os_path_isfile w (os_path_join d (fst ent))"
    and mk: "mkdtemp_result E w = Inr t" and fr: "fresh w t"
    and wb: "with_body E (os_path_join d (fst ent)) od ent (Some t)
               (w\<lparr>dirs := insert t (dirs w), trace := trace w @ [Mkdtemp]\<rparr>) = (r, w2)"
  obtains w4 where
    "loop_body E d od ent w =
       (case r of Inl e \<Rightarrow> (Inl e, w4)
        | Inr Continue \<Rightarrow> (Inr (), w4)
        | Inr Normal \<Rightarrow> print_unicode E (SuccessMsg (fst ent)) w4)"
    "calls_made w4 = calls_made w2" "outcome_msgs w4 = outcome_msgs w2"
    "attempted w4 = attempted w2"
    "outside t (files w4) = outside t (files w2)" "outside t (dirs w4) = outside t (dirs w2)"
    "files w4 \<subseteq> files w2" "dirs w4 \<subseteq> dirs w2"
    "prefix (trace w2 @ [Rmtree t]) (trace w4)"
    "t \<in> dirs w2 \<longrightarrow> rmtree_fault E w2 t = None \<longrightarrow>
       (\<forall>p \<in> dirs w4 \<union> files w4. \<not> in_tree t p)"
proof -
  from fr have t: "t \<noteq> []" by (simp add: fresh_def)
  obtain x self' w3 where
    ex: "TemporaryDirectory_exit E \<lparr>name = Some t, closed = False\<rparr> w2 = (x, self', w3)"
    by (cases "TemporaryDirectory_exit E \<lparr>name = Some t, closed = False\<rparr> w2")
  obtain y self'' w4 where dl: "TemporaryDirectory_del E self' w3 = (y, self'', w4)"
    by (cases "TemporaryDirectory_del E self' w3")
  note rf = release_frame[OF ex dl t]
  have eq: "loop_body E d od ent w =
       (case r of Inl e \<Rightarrow> (Inl e, w4)
        | Inr Continue \<Rightarrow> (Inr (), w4)
        | Inr Normal \<Rightarrow> print_unicode E (SuccessMsg (fst ent)) w4)"
    using p wb ex dl rf(1)
    by (simp add: loop_body_def Let_def TemporaryDirectory_init_def mkdtemp_ok[OF mk fr]
        TemporaryDirectory_enter_def split: sum.splits flow.splits)
  show thesis by (rule that[OF eq rf(2-10)])
qed

section \<open>The outcome of an iteration does not depend on refused deletions\<close>

lemma env_rmtree_fault_sel:
  "getcwd (E\<lparr>rmtree_fault := rf\<rparr>) = getcwd E"
  "popen_result (E\<lparr>rmtree_fault := rf\<rparr>) = popen_result E"
  "move_fault (E\<lparr>rmtree_fault := rf\<rparr>) = move_fault E"
  "mkdtemp_result (E\<lparr>rmtree_fault := rf\<rparr>) = mkdtemp_result E"
  "print_fault (E\<lparr>rmtree_fault := rf\<rparr>) = print_fault E"
  by simp_all

lemma print_rmtree_fault:
  "print_unicode (E\<lparr>rmtree_fault := rf\<rparr>) m w = print_unicode E m w"
  unfolding print_unicode_def env_rmtree_fault_sel ..

lemma with_body_rmtree_fault:
  "with_body (E\<lparr>rmtree_fault := rf\<rparr>) ip od ent td w = with_body E ip od ent td w"
  unfolding with_body_def seven_zip_extract_def subprocess_Popen_def shutil_move_def
    print_unicode_def env_rmtree_fault_sel ..

lemma mkdtemp_rmtree_fault:
  "tempfile_mkdtemp (E\<lparr>rmtree_fault := rf\<rparr>) w = tempfile_mkdtemp E w"
  unfolding tempfile_mkdtemp_def env_rmtree_fault_sel ..

lemma loop_body_rmtree_fault:
  "fst (loop_body (E\<lparr>rmtree_fault := rf\<rparr>) d od ent w) = fst (loop_body E d od ent w) \<and>
   outcome_msgs (snd (loop_body (E\<lparr>rmtree_fault := rf\<rparr>) d od ent w)) =
     outcome_msgs (snd (loop_body E d od ent w))"
proof (cases "os_path_isfile w (os_path_join d (fst ent))")
  case False
  then show ?thesis by (simp add: loop_body_absent print_rmtree_fault)
next
  case True
  note p = True
  obtain x w1 where mk: "tempfile_mkdtemp E w = (x, w1)" by (cases "tempfile_mkdtemp E w")
  then have mk': "tempfile_mkdtemp (E\<lparr>rmtree_fault := rf\<rparr>) w = (x, w1)"
    by (simp add: mkdtemp_rmtree_fault)
  show ?thesis
  proof (cases x)
    case (Inl e)
    from mk Inl have m: "tempfile_mkdtemp E w = (Inl e, w1)" by simp
    from mk' Inl have m': "tempfile_mkdtemp (E\<lparr>rmtree_fault := rf\<rparr>) w = (Inl e, w1)" by simp
    show ?thesis
      unfolding loop_body_init_fails[OF p m] loop_body_init_fails[OF p m'] by simp
  next
    case (Inr t)
    with mk have a: "mkdtemp_result E w = Inr t" and fr: "fresh w t"
      by (auto dest: mkdtemp_ok_iff)
    then have a': "mkdtemp_result (E\<lparr>rmtree_fault := rf\<rparr>) w = Inr t" by simp
    obtain r w2 where wb: "with_body E (os_path_join d (fst ent)) od ent (Some t)
               (w\<lparr>dirs := insert t (dirs w), trace := trace w @ [Mkdtemp]\<rparr>) = (r, w2)"
      by (cases "with_body E (os_path_join d (fst ent)) od ent (Some t)
               (w\<lparr>dirs := insert t (dirs w), trace := trace w @ [Mkdtemp]\<rparr>)")
    then have wb': "with_body (E\<lparr>rmtree_fault := rf\<rparr>) (os_path_join d (fst ent)) od ent (Some t)
               (w\<lparr>dirs := insert t (dirs w), trace := trace w @ [Mkdtemp]\<rparr>) = (r, w2)"
      by (simp add: with_body_rmtree_fault)
    obtain w4 where
      l: "loop_body E d od ent w =
       (case r of Inl e \<Rightarrow> (Inl e, w4)
        | Inr Continue \<Rightarrow> (Inr (), w4)
        | Inr Normal \<Rightarrow> print_unicode E (SuccessMsg (fst ent)) w4)"
      and o: "outcome_msgs w4 = outcome_msgs w2"
      by (rule loop_body_present[OF p a fr wb])
    obtain v4 where
      l': "loop_body (E\<lparr>rmtree_fault := rf\<rparr>) d od ent w =
       (case r of Inl e \<Rightarrow> (Inl e, v4)
        | Inr Continue \<Rightarrow> (Inr (), v4)
        | Inr Normal \<Rightarrow> print_unicode (E\<lparr>rmtree_fault := rf\<rparr>) (SuccessMsg (fst ent)) v4)"
      and o': "outcome_msgs v4 = outcome_msgs w2"
      by (rule loop_body_present[OF p a' fr wb'])
    show ?thesis unfolding l l' print_rmtree_fault using o o'
      by (simp add: print_fst print_obs split: sum.splits flow.splits)
  qed
qed

section \<open>Observations after each call\<close>

lemma entered_eq:
  "entered w t i =
     (w\<lparr>dirs := insert t (dirs w), trace := trace w @ [Mkdtemp]\<rparr>)
       \<lparr>sys_stdout := sys_stdout (w\<lparr>dirs := insert t (dirs w), trace := trace w @ [Mkdtemp]\<rparr>) @
                      [ExtractingMsg i]\<rparr>"
  by (simp add: entered_def)

lemma entered_obs:
  "calls_made (entered w t i) = calls_made w @ [Mkdtemp]"
  "outcome_msgs (entered w t i) = outcome_msgs w @ [ExtractingMsg i]"
  "files (entered w t i) = files w"
  "dirs (entered w t i) = insert t (dirs w)"
  by (simp_all add: entered_def calls_made_def outcome_msgs_def)

lemma popen_obs:
  assumes "subprocess_Popen E args t w = (r, w')" and "t \<noteq> []" and "last t \<noteq> CHR ''/''"
  shows "calls_made w' = calls_made w @ [Popen args t]"
    and "outcome_msgs w' = outcome_msgs w"
    and "outside t (files w') = outside t (files w)"
    and "dirs w' = dirs w"
  using popen_frame[OF assms(1)] popen_outside[OF assms]
  by (simp_all add: calls_made_def outcome_msgs_def)

lemma move_obs:
  assumes "shutil_move E src dst w = (r, w')"
  shows "calls_made w' = calls_made w @ [Move src dst]"
    and "outcome_msgs w' = outcome_msgs w"
  using move_frame[OF assms] by (simp_all add: calls_made_def outcome_msgs_def)

section \<open>The catalog\<close>

lemma catalog_base_names:
  "\<forall>ent \<in> set NTOSKRNL_MAP. snd (os_path_split (snd (snd ent))) = ''ntoskrnl.exe''"
  by code_simp

section \<open>The loop\<close>

lemma main_loop_append:
  "main_loop E d od (xs @ ys) w =
     (case main_loop E d od xs w of
        (Inl e, w') \<Rightarrow> (Inl e, w')
      | (Inr u, w') \<Rightarrow> main_loop E d od ys w')"
  by (induction xs arbitrary: w) (auto split: prod.splits sum.splits)

lemma main_loop_all_absent:
  "\<forall>x \<in> set cat. \<not> os_path_isfile w (os_path_join d (fst x)) \<Longrightarrow>
   \<forall>x \<in> set cat. print_fault E (NotFoundMsg (fst x)) = None \<Longrightarrow>
   main_loop E d od cat w =
     (Inr (), w\<lparr>sys_stdout := sys_stdout w @ map (\<lambda>x. NotFoundMsg (fst x)) cat\<rparr>)"
proof (induction cat arbitrary: w)
  case Nil
  show ?case by simp
next
  case (Cons x xs)
  let ?w = "w\<lparr>sys_stdout := sys_stdout w @ [NotFoundMsg (fst x)]\<rparr>"
  from Cons.prems have a: "\<not> os_path_isfile w (os_path_join d (fst x))" by simp
  from Cons.prems have b: "print_fault E (NotFoundMsg (fst x)) = None" by simp
  from Cons.prems have "\<forall>y \<in> set xs. \<not> os_path_isfile ?w (os_path_join d (fst y))"
    by (simp add: os_path_isfile_def)
  moreover from Cons.prems have "\<forall>y \<in> set xs. print_fault E (NotFoundMsg (fst y)) = None"
    by simp
  ultimately have "main_loop E d od xs ?w =
     (Inr (), ?w\<lparr>sys_stdout := sys_stdout ?w @ map (\<lambda>x. NotFoundMsg (fst x)) xs\<rparr>)"
    by (rule Cons.IH)
  then show ?case by (simp add: loop_body_absent[OF a] print_ok[OF b])
qed



section \<open>Facts about the example environments\<close>

lemma ex_present: "os_path_isfile example_world (os_path_join ''/in'' (fst win7))"
  by code_simp

lemma ex_mkdtemp: "mkdtemp_result (example_env po rf) w = Inr ''/tmp/tmpA''"
  by (simp add: example_env_def)

lemma ex_fresh: "fresh example_world ''/tmp/tmpA''"
  by code_simp

lemma ex_never_refused: "rmtree_fault (example_env po never_refused) w t = None"
  by (simp add: example_env_def never_refused_def)

lemma ex_obs:
  "calls_made example_world = []" "outcome_msgs example_world = []"
  "attempted example_world = []"
  by (simp_all add: calls_made_def outcome_msgs_def attempted_def example_world_def)

lemma ex_present_win7:
  "os_path_isfile example_world
     (os_path_join ''/in'' ''en_windows_7_enterprise_with_sp1_x64_dvd_u_677651.iso'')"
  using ex_present by (simp add: win7_def)


section \<open>The claims\<close>

subsection \<open>C1\<close>

text \<open>
  C1. For every catalog entry whose source archive exists and for which a workspace \<open>t\<close> was
  acquired, \<^verbatim>\<open>rmtree\<close> is invoked on \<open>t\<close> after the workspace was created, however the attempt
  is left (full success, skip after the first extraction, skip after the second extraction,
  exception raised inside the attempt: the statement holds for every environment, whatever
  the result of the iteration). If the deletion at the exit of the \<^verbatim>\<open>with\<close> statement is not
  refused, nothing at or below \<open>t\<close> exists once the iteration is over. Without that condition
  the directory can remain, since \<^verbatim>\<open>cleanup\<close> catches the error of a refused deletion.
\<close>

theorem workspace_removed_at_exit:
  assumes present: "os_path_isfile w (os_path_join iso_dir (fst ent))"
    and mk: "mkdtemp_result E w = Inr t" and fr: "fresh w t"
  shows "(\<exists>cs. trace (snd (loop_body E iso_dir output_dir ent w)) = trace w @ Mkdtemp # cs \<and>
               Rmtree t \<in> set cs) \<and>
         (rmtree_fault E (body_world E iso_dir output_dir ent t w) t = None \<longrightarrow>
            (\<forall>p \<in> dirs (snd (loop_body E iso_dir output_dir ent w)) \<union>
                   files (snd (loop_body E iso_dir output_dir ent w)). \<not> in_tree t p))"
proof -
  let ?w1 = "w\<lparr>dirs := insert t (dirs w), trace := trace w @ [Mkdtemp]\<rparr>"
  obtain i c k where ent: "ent = (i, c, k)" by (cases ent)
  from fr have t: "t \<noteq> []" "last t \<noteq> CHR ''/''" by (simp_all add: fresh_def)
  obtain r w2 where wb: "with_body E (os_path_join iso_dir (fst ent)) output_dir ent (Some t) ?w1
      = (r, w2)"
    by (cases "with_body E (os_path_join iso_dir (fst ent)) output_dir ent (Some t) ?w1")
  then have bw: "body_world E iso_dir output_dir ent t w = w2" by (simp add: body_world_def)
  note f = with_body_frame[OF wb[unfolded ent] t]
  from f(1) have d: "t \<in> dirs w2" by simp
  from f(4) obtain cs where cs: "trace w2 = trace w @ Mkdtemp # cs" by auto
  obtain w4 where
    l: "loop_body E iso_dir output_dir ent w =
       (case r of Inl e \<Rightarrow> (Inl e, w4)
        | Inr Continue \<Rightarrow> (Inr (), w4)
        | Inr Normal \<Rightarrow> print_unicode E (SuccessMsg (fst ent)) w4)"
    and tr: "prefix (trace w2 @ [Rmtree t]) (trace w4)"
    and rm: "t \<in> dirs w2 \<longrightarrow> rmtree_fault E w2 t = None \<longrightarrow>
       (\<forall>p \<in> dirs w4 \<union> files w4. \<not> in_tree t p)"
    by (rule loop_body_present[OF present mk fr wb])
  from tr obtain zs where "trace w4 = (trace w2 @ [Rmtree t]) @ zs" by (auto simp: prefix_def)
  with cs have "trace w4 = trace w @ Mkdtemp # (cs @ Rmtree t # zs)" by simp
  moreover have "Rmtree t \<in> set (cs @ Rmtree t # zs)" by simp
  ultimately have a: "\<exists>cs. trace w4 = trace w @ Mkdtemp # cs \<and> Rmtree t \<in> set cs" by blast
  from l have s: "trace (snd (loop_body E iso_dir output_dir ent w)) = trace w4"
    "dirs (snd (loop_body E iso_dir output_dir ent w)) = dirs w4"
    "files (snd (loop_body E iso_dir output_dir ent w)) = files w4"
    by (simp_all add: print_frame split: sum.splits flow.splits)
  from a rm d bw show ?thesis unfolding s by simp
qed

text \<open>The four exits on the example world, deletions never refused: full success, skip after
  the first extraction, skip after the second, and an exception of the launch.\<close>

theorem workspace_removed_at_exit_witness:
  "''/tmp/tmpA'' \<notin> dirs (snd (loop_body (example_env extracts_member never_refused)
      ''/in'' ''/out'' win7 example_world)) \<and>
   ''/tmp/tmpA'' \<notin> dirs (snd (loop_body (example_env reports_error never_refused)
      ''/in'' ''/out'' win7 example_world)) \<and>
   ''/tmp/tmpA'' \<notin> dirs (snd (loop_body (example_env second_call_fails never_refused)
      ''/in'' ''/out'' win7 example_world)) \<and>
   ''/tmp/tmpA'' \<notin> dirs (snd (loop_body (example_env not_installed never_refused)
      ''/in'' ''/out'' win7 example_world)) \<and>
   fst (loop_body (example_env extracts_member never_refused)
      ''/in'' ''/out'' win7 example_world) = Inr () \<and>
   outcome_msgs (snd (loop_body (example_env reports_error never_refused)
      ''/in'' ''/out'' win7 example_world)) =
     [ExtractingMsg (fst win7),
      Hop1FailedMsg ''sources/install.wim'' (fst win7) ''ERROR: cannot open the file as archive''] \<and>
   outcome_msgs (snd (loop_body (example_env second_call_fails never_refused)
      ''/in'' ''/out'' win7 example_world)) =
     [ExtractingMsg (fst win7), Hop2FailedMsg ''install.wim'' ''ERROR: no files to process''] \<and>
   fst (loop_body (example_env not_installed never_refused)
      ''/in'' ''/out'' win7 example_world) = Inl (OSError ''No such file or directory: 7z'')"
proof -
  have g: "\<And>po. ''/tmp/tmpA'' \<notin> dirs (snd (loop_body (example_env po never_refused)
      ''/in'' ''/out'' win7 example_world))"
  proof -
    fix po
    from workspace_removed_at_exit[OF ex_present ex_mkdtemp ex_fresh,
        of po never_refused "''/out''"] ex_never_refused
    have "\<forall>p \<in> dirs (snd (loop_body (example_env po never_refused) ''/in'' ''/out'' win7
                example_world)) \<union>
               files (snd (loop_body (example_env po never_refused) ''/in'' ''/out'' win7
                example_world)). \<not> in_tree ''/tmp/tmpA'' p"
      by simp
    then show "''/tmp/tmpA'' \<notin> dirs (snd (loop_body (example_env po never_refused)
      ''/in'' ''/out'' win7 example_world))"
      using in_tree_self by blast
  qed
  have 1: "fst (loop_body (example_env extracts_member never_refused)
      ''/in'' ''/out'' win7 example_world) = Inr ()" by code_simp
  have 2: "outcome_msgs (snd (loop_body (example_env reports_error never_refused)
      ''/in'' ''/out'' win7 example_world)) =
     [ExtractingMsg (fst win7),
      Hop1FailedMsg ''sources/install.wim'' (fst win7) ''ERROR: cannot open the file as archive'']"
    by code_simp
  have 3: "outcome_msgs (snd (loop_body (example_env second_call_fails never_refused)
      ''/in'' ''/out'' win7 example_world)) =
     [ExtractingMsg (fst win7), Hop2FailedMsg ''install.wim'' ''ERROR: no files to process'']"
    by code_simp
  have 4: "fst (loop_body (example_env not_installed never_refused)
      ''/in'' ''/out'' win7 example_world) = Inl (OSError ''No such file or directory: 7z'')"
    by code_simp
  from g 1 2 3 4 show ?thesis by simp
qed

text \<open>With every deletion refused the workspace created for the entry is still there after
  the iteration, which ends normally; both \<^verbatim>\<open>__exit__\<close> and \<^verbatim>\<open>__del__\<close> have tried.\<close>

theorem workspace_left_behind:
  "os_path_isfile example_world (os_path_join ''/in'' (fst win7)) \<and>
   ''/tmp/tmpA'' \<notin> dirs example_world \<and>
   fst (loop_body (example_env extracts_member always_refused) ''/in'' ''/out'' win7
          example_world) = Inr () \<and>
   trace (snd (loop_body (example_env extracts_member always_refused) ''/in'' ''/out'' win7
          example_world)) =
     [Mkdtemp,
      Popen [''7z'', ''e'', ''/in/en_windows_7_enterprise_with_sp1_x64_dvd_u_677651.iso'',
             ''sources/install.wim''] ''/tmp/tmpA'',
      Popen [''7z'', ''e'', ''/tmp/tmpA/install.wim'', ''Windows/System32/ntoskrnl.exe'']
            ''/tmp/tmpA'',
      Move ''/tmp/tmpA/ntoskrnl.exe''
           ''/out/en_windows_7_enterprise_with_sp1_x64_dvd_u_677651_ntoskrnl.exe'',
      Rmtree ''/tmp/tmpA'', Rmtree ''/tmp/tmpA''] \<and>
   ''/tmp/tmpA'' \<in> dirs (snd (loop_body (example_env extracts_member always_refused) ''/in''
          ''/out'' win7 example_world))"
  by code_simp

subsection \<open>C2\<close>

text \<open>
  C2. For every processed entry (the archive exists, a workspace \<open>t\<close> was acquired, the first
  launch of \<^verbatim>\<open>7z\<close> returned), the first extraction is judged by the diagnostic text alone.
  If the text is not empty the entry goes no further, whatever the status code: the only calls
  are the creation of the workspace and the first extraction (no second extraction, no move),
  and outside the workspace the files are as before. The failure line of that branch carries
  the character U+2717: when standard output takes it, the line is printed after the progress
  line and the iteration ends normally; when it does not, the iteration ends with the
  exception of the \<^verbatim>\<open>print\<close> and only the progress line was printed. If the text is empty the
  second extraction is launched, also when the status code is not zero.
\<close>

theorem hop1_decided_by_diagnostic:
  assumes present: "os_path_isfile w (os_path_join iso_dir iso')"
    and mk: "mkdtemp_result E w = Inr t" and fr: "fresh w t"
    and hop1: "seven_zip_extract E (os_path_join iso_dir iso') [container] (Some t)
                 (entered w t iso') = (Inr (returncode, stderr), w2)"
  shows "(stderr \<noteq> [] \<longrightarrow>
            calls_made (snd (loop_body E iso_dir output_dir (iso', container, krnl) w)) =
              calls_made w @
                [Mkdtemp, Popen [''7z'', ''e'', os_path_join iso_dir iso', container] t] \<and>
            outside t (files (snd (loop_body E iso_dir output_dir (iso', container, krnl) w))) =
              files w \<and>
            (print_fault E (Hop1FailedMsg container iso' stderr) = None \<longrightarrow>
               fst (loop_body E iso_dir output_dir (iso', container, krnl) w) = Inr () \<and>
               outcome_msgs (snd (loop_body E iso_dir output_dir (iso', container, krnl) w)) =
                 outcome_msgs w @ [ExtractingMsg iso', Hop1FailedMsg container iso' stderr]) \<and>
            (\<forall>e. print_fault E (Hop1FailedMsg container iso' stderr) = Some e \<longrightarrow>
               fst (loop_body E iso_dir output_dir (iso', container, krnl) w) = Inl e \<and>
               outcome_msgs (snd (loop_body E iso_dir output_dir (iso', container, krnl) w)) =
                 outcome_msgs w @ [ExtractingMsg iso'])) \<and>
         (stderr = [] \<longrightarrow>
            prefix
              (calls_made w @
                 [Mkdtemp, Popen [''7z'', ''e'', os_path_join iso_dir iso', container] t,
                  Popen [''7z'', ''e'', os_path_join t (snd (os_path_split container)), krnl] t])
              (calls_made (snd (loop_body E iso_dir output_dir (iso', container, krnl) w))))"
proof -
  let ?ent = "(iso', container, krnl)"
  let ?ip = "os_path_join iso_dir iso'"
  let ?w1 = "w\<lparr>dirs := insert t (dirs w), trace := trace w @ [Mkdtemp]\<rparr>"
  let ?P1 = "Popen [''7z'', ''e'', ?ip, container] t"
  let ?P2 = "Popen [''7z'', ''e'', os_path_join t (snd (os_path_split container)), krnl] t"
  let ?m = "Hop1FailedMsg container iso' stderr"
  from fr have t: "t \<noteq> []" "last t \<noteq> CHR ''/''" by (simp_all add: fresh_def)
  from present have p: "os_path_isfile w (os_path_join iso_dir (fst ?ent))" by simp
  from hop1 t(1) have h1: "subprocess_Popen E [''7z'', ''e'', ?ip, container] t
      (?w1\<lparr>sys_stdout := sys_stdout ?w1 @ [ExtractingMsg iso']\<rparr>) = (Inr (returncode, stderr), w2)"
    by (simp add: seven_zip_extract_Some entered_def)
  then have h1': "subprocess_Popen E [''7z'', ''e'', ?ip, container] t (entered w t iso') =
      (Inr (returncode, stderr), w2)" by (simp add: entered_def)
  note o1 = popen_obs[OF h1' t]
  have c2: "calls_made w2 = calls_made w @ [Mkdtemp, ?P1]"
    and m2: "outcome_msgs w2 = outcome_msgs w @ [ExtractingMsg iso']"
    and f2: "outside t (files w2) = files w"
    using o1 fr by (simp_all add: entered_obs outside_fresh)
  obtain r wE where wb: "with_body E (os_path_join iso_dir (fst ?ent)) output_dir ?ent (Some t) ?w1
      = (r, wE)"
    by (cases "with_body E (os_path_join iso_dir (fst ?ent)) output_dir ?ent (Some t) ?w1")
  obtain w4 where
    l: "loop_body E iso_dir output_dir ?ent w =
       (case r of Inl e \<Rightarrow> (Inl e, w4)
        | Inr Continue \<Rightarrow> (Inr (), w4)
        | Inr Normal \<Rightarrow> print_unicode E (SuccessMsg (fst ?ent)) w4)"
    and cm: "calls_made w4 = calls_made wE" and om: "outcome_msgs w4 = outcome_msgs wE"
    and ou: "outside t (files w4) = outside t (files wE)"
    by (rule loop_body_present[OF p mk fr wb])
  have cl: "calls_made (snd (loop_body E iso_dir output_dir ?ent w)) = calls_made wE"
    unfolding l using cm by (simp add: print_obs split: sum.splits flow.splits)
  have fl: "outside t (files (snd (loop_body E iso_dir output_dir ?ent w))) =
      outside t (files wE)"
    unfolding l using ou by (simp add: print_frame split: sum.splits flow.splits)
  show ?thesis
  proof (intro conjI impI allI)
    assume ne: "stderr \<noteq> []"
    have wE: "calls_made wE = calls_made w2 \<and> outside t (files wE) = outside t (files w2)"
    proof (cases "print_fault E ?m")
      case None
      with h1 t(1) ne have "with_body E ?ip output_dir ?ent (Some t) ?w1 =
          (Inr Continue, w2\<lparr>sys_stdout := sys_stdout w2 @ [?m]\<rparr>)"
        by (simp add: with_body_def seven_zip_extract_Some print_ok)
      with wb have "wE = w2\<lparr>sys_stdout := sys_stdout w2 @ [?m]\<rparr>" by simp
      then show ?thesis by simp
    next
      case (Some e)
      with h1 t(1) ne have "with_body E ?ip output_dir ?ent (Some t) ?w1 = (Inl e, w2)"
        by (simp add: with_body_def seven_zip_extract_Some print_fail)
      with wb show ?thesis by simp
    qed
    from cl wE c2
    show "calls_made (snd (loop_body E iso_dir output_dir ?ent w)) =
              calls_made w @ [Mkdtemp, ?P1]"
      by simp
    from fl wE f2
    show "outside t (files (snd (loop_body E iso_dir output_dir ?ent w))) = files w"
      by simp
  next
    assume ne: "stderr \<noteq> []" and pr: "print_fault E ?m = None"
    with h1 t(1) have "with_body E ?ip output_dir ?ent (Some t) ?w1 =
        (Inr Continue, w2\<lparr>sys_stdout := sys_stdout w2 @ [?m]\<rparr>)"
      by (simp add: with_body_def seven_zip_extract_Some print_ok)
    with wb have r: "r = Inr Continue" and wE: "wE = w2\<lparr>sys_stdout := sys_stdout w2 @ [?m]\<rparr>"
      by simp_all
    from l r show "fst (loop_body E iso_dir output_dir ?ent w) = Inr ()" by simp
    from l r om wE m2
    show "outcome_msgs (snd (loop_body E iso_dir output_dir ?ent w)) =
              outcome_msgs w @ [ExtractingMsg iso', ?m]"
      by simp
  next
    fix e
    assume ne: "stderr \<noteq> []" and pr: "print_fault E ?m = Some e"
    with h1 t(1) have "with_body E ?ip output_dir ?ent (Some t) ?w1 = (Inl e, w2)"
      by (simp add: with_body_def seven_zip_extract_Some print_fail)
    with wb have r: "r = Inl e" and wE: "wE = w2" by simp_all
    from l r show "fst (loop_body E iso_dir output_dir ?ent w) = Inl e" by simp
    from l r om wE m2
    show "outcome_msgs (snd (loop_body E iso_dir output_dir ?ent w)) =
              outcome_msgs w @ [ExtractingMsg iso']"
      by simp
  next
    assume e: "stderr = []"
    obtain x w3 where h2: "subprocess_Popen E
        [''7z'', ''e'', os_path_join t (snd (os_path_split container)), krnl] t w2 = (x, w3)"
      by (cases "subprocess_Popen E
        [''7z'', ''e'', os_path_join t (snd (os_path_split container)), krnl] t w2")
    note o2 = popen_obs[OF h2 t]
    from o2(1) c2 have c3: "calls_made w3 = calls_made w @ [Mkdtemp, ?P1, ?P2]" by simp
    have "prefix (calls_made w3) (calls_made wE)"
      using t(1)
    proof (cases rule: with_body_cases[where E = E and ip = ?ip and c = container and w = ?w1
          and i = iso' and od = output_dir and k = krnl and t = t])
      case (raise1 e' v2)
      with h1 show ?thesis by simp
    next
      case (skip1 rc' err' v2)
      with h1 e show ?thesis by simp
    next
      case (unprinted1 rc' err' v2 e')
      with h1 e show ?thesis by simp
    next
      case (raise2 rc' v2 e' v3)
      from raise2(1,2) h1 h2 have "v3 = w3" by simp
      moreover from raise2(3) wb have "wE = v3" by simp
      ultimately show ?thesis by simp
    next
      case (skip2 rc' v2 rc2 err2 v3)
      from skip2(1,2) h1 h2 have "v3 = w3" by simp
      moreover from skip2(5) wb
      have "wE = v3\<lparr>sys_stdout := sys_stdout v3 @
                     [Hop2FailedMsg (snd (os_path_split container)) err2]\<rparr>" by simp
      ultimately show ?thesis by (simp add: calls_made_def)
    next
      case (unprinted2 rc' v2 rc2 err2 v3 e')
      from unprinted2(1,2) h1 h2 have "v3 = w3" by simp
      moreover from unprinted2(5) wb have "wE = v3" by simp
      ultimately show ?thesis by simp
    next
      case (raise3 rc' v2 err2 v3 e' v4)
      from raise3(1,2) h1 h2 have "v3 = w3" by simp
      moreover from raise3(4) wb have "wE = v4" by simp
      ultimately show ?thesis using move_obs(1)[OF raise3(3)] by simp
    next
      case (success rc' v2 err2 v3 rd v4)
      from success(1,2) h1 h2 have "v3 = w3" by simp
      moreover from success(4) wb have "wE = v4" by simp
      ultimately show ?thesis using move_obs(1)[OF success(3)] by simp
    qed
    with c3 cl
    show "prefix (calls_made w @ [Mkdtemp, ?P1, ?P2])
            (calls_made (snd (loop_body E iso_dir output_dir ?ent w)))"
      by simp
  qed
qed

text \<open>A diagnostic with status 0 stops the entry after the first extraction, on a standard
  output that takes every line and on one that takes ASCII only; status 2 without a diagnostic
  goes on to the second extraction.\<close>

theorem hop1_decided_by_diagnostic_witness:
  "fst (loop_body (example_env reports_error never_refused) ''/in'' ''/out'' win7
          example_world) = Inr () \<and>
   outcome_msgs (snd (loop_body (example_env reports_error never_refused) ''/in'' ''/out'' win7
          example_world)) =
     [ExtractingMsg ''en_windows_7_enterprise_with_sp1_x64_dvd_u_677651.iso'',
      Hop1FailedMsg ''sources/install.wim''
        ''en_windows_7_enterprise_with_sp1_x64_dvd_u_677651.iso''
        ''ERROR: cannot open the file as archive''] \<and>
   calls_made (snd (loop_body (example_env reports_error never_refused) ''/in'' ''/out'' win7
          example_world)) =
     [Mkdtemp,
      Popen [''7z'', ''e'',
             os_path_join ''/in'' ''en_windows_7_enterprise_with_sp1_x64_dvd_u_677651.iso'',
             ''sources/install.wim''] ''/tmp/tmpA''] \<and>
   outside ''/tmp/tmpA'' (files (snd (loop_body (example_env reports_error never_refused)
          ''/in'' ''/out'' win7 example_world))) = files example_world \<and>
   prefix
     [Mkdtemp,
      Popen [''7z'', ''e'',
             os_path_join ''/in'' ''en_windows_7_enterprise_with_sp1_x64_dvd_u_677651.iso'',
             ''sources/install.wim''] ''/tmp/tmpA'',
      Popen [''7z'', ''e'',
             os_path_join ''/tmp/tmpA'' (snd (os_path_split ''sources/install.wim'')),
             ''Windows/System32/ntoskrnl.exe''] ''/tmp/tmpA'']
     (calls_made (snd (loop_body (example_env silent_status2 never_refused) ''/in'' ''/out''
          win7 example_world))) \<and>
   fst (loop_body ((example_env reports_error never_refused)\<lparr>print_fault := ascii_stdout\<rparr>)
          ''/in'' ''/out'' win7 example_world) =
     Inl (UnicodeEncodeError ''ascii codec cannot encode character'') \<and>
   outcome_msgs (snd (loop_body
          ((example_env reports_error never_refused)\<lparr>print_fault := ascii_stdout\<rparr>)
          ''/in'' ''/out'' win7 example_world)) =
     [ExtractingMsg ''en_windows_7_enterprise_with_sp1_x64_dvd_u_677651.iso''] \<and>
   calls_made (snd (loop_body
          ((example_env reports_error never_refused)\<lparr>print_fault := ascii_stdout\<rparr>)
          ''/in'' ''/out'' win7 example_world)) =
     [Mkdtemp,
      Popen [''7z'', ''e'',
             os_path_join ''/in'' ''en_windows_7_enterprise_with_sp1_x64_dvd_u_677651.iso'',
             ''sources/install.wim''] ''/tmp/tmpA'']"
proof -
  let ?i = "''en_windows_7_enterprise_with_sp1_x64_dvd_u_677651.iso''"
  let ?c = "''sources/install.wim''"
  let ?E = "example_env reports_error never_refused"
  let ?F = "example_env silent_status2 never_refused"
  have a: "seven_zip_extract ?E (os_path_join ''/in'' ?i) [?c] (Some ''/tmp/tmpA'')
             (entered example_world ''/tmp/tmpA'' ?i) =
           (Inr (0, ''ERROR: cannot open the file as archive''),
            snd (seven_zip_extract ?E (os_path_join ''/in'' ?i) [?c] (Some ''/tmp/tmpA'')
                   (entered example_world ''/tmp/tmpA'' ?i)))"
    by (simp add: seven_zip_extract_def subprocess_Popen_def example_env_def reports_error_def)
  have b: "seven_zip_extract ?F (os_path_join ''/in'' ?i) [?c] (Some ''/tmp/tmpA'')
             (entered example_world ''/tmp/tmpA'' ?i) =
           (Inr (2, []),
            snd (seven_zip_extract ?F (os_path_join ''/in'' ?i) [?c] (Some ''/tmp/tmpA'')
                   (entered example_world ''/tmp/tmpA'' ?i)))"
    by (simp add: seven_zip_extract_def subprocess_Popen_def example_env_def silent_status2_def)
  let ?A = "?E\<lparr>print_fault := ascii_stdout\<rparr>"
  have mkA: "mkdtemp_result ?A example_world = Inr ''/tmp/tmpA''"
    using ex_mkdtemp[of reports_error never_refused] by simp
  have c: "seven_zip_extract ?A (os_path_join ''/in'' ?i) [?c] (Some ''/tmp/tmpA'')
             (entered example_world ''/tmp/tmpA'' ?i) =
           (Inr (0, ''ERROR: cannot open the file as archive''),
            snd (seven_zip_extract ?A (os_path_join ''/in'' ?i) [?c] (Some ''/tmp/tmpA'')
                   (entered example_world ''/tmp/tmpA'' ?i)))"
    by (simp add: seven_zip_extract_def subprocess_Popen_def example_env_def reports_error_def)
  have pa: "print_fault ?A (Hop1FailedMsg ?c ?i ''ERROR: cannot open the file as archive'') =
      Some (UnicodeEncodeError ''ascii codec cannot encode character'')"
    by simp
  have pr: "print_fault ?E (Hop1FailedMsg ?c ?i ''ERROR: cannot open the file as archive'') =
      None"
    by (simp add: example_env_def)
  from pr pa hop1_decided_by_diagnostic[OF ex_present_win7 mkA ex_fresh c,
      of "''/out''" "''Windows/System32/ntoskrnl.exe''"]
    hop1_decided_by_diagnostic[OF ex_present_win7 ex_mkdtemp ex_fresh a,
      of "''/out''" "''Windows/System32/ntoskrnl.exe''"]
    hop1_decided_by_diagnostic[OF ex_present_win7 ex_mkdtemp ex_fresh b,
      of "''/out''" "''Windows/System32/ntoskrnl.exe''"]
  show ?thesis by (simp add: ex_obs win7_def)
qed

subsection \<open>C3\<close>

text \<open>
  C3. For every processed entry that reaches the second extraction, that extraction is judged
  by the status code alone. If the status is not zero the entry goes no further: the calls are
  the creation of the workspace and the two extractions (no move), and outside the workspace
  the files are as before. When standard output takes the failure line (it carries U+2717),
  the line is printed after the progress line and the iteration ends normally; when it does
  not, the iteration ends with the exception of the \<^verbatim>\<open>print\<close> and only the progress line was
  printed. If the status is zero the move of \<^verbatim>\<open>ntoskrnl.exe\<close> to the output directory is
  called, also when the diagnostic text is not empty.
\<close>

theorem hop2_decided_by_status:
  assumes present: "os_path_isfile w (os_path_join iso_dir iso')"
    and mk: "mkdtemp_result E w = Inr t" and fr: "fresh w t"
    and hop1: "seven_zip_extract E (os_path_join iso_dir iso') [container] (Some t)
                 (entered w t iso') = (Inr (rc1, []), w2)"
    and hop2: "seven_zip_extract E (os_path_join t (snd (os_path_split container))) [krnl]
                 (Some t) w2 = (Inr (returncode, stderr), w3)"
  shows "(returncode \<noteq> 0 \<longrightarrow>
            calls_made (snd (loop_body E iso_dir output_dir (iso', container, krnl) w)) =
              calls_made w @
                [Mkdtemp, Popen [''7z'', ''e'', os_path_join iso_dir iso', container] t,
                 Popen [''7z'', ''e'', os_path_join t (snd (os_path_split container)), krnl] t] \<and>
            outside t (files (snd (loop_body E iso_dir output_dir (iso', container, krnl) w))) =
              files w \<and>
            (print_fault E (Hop2FailedMsg (snd (os_path_split container)) stderr) = None \<longrightarrow>
               fst (loop_body E iso_dir output_dir (iso', container, krnl) w) = Inr () \<and>
               outcome_msgs (snd (loop_body E iso_dir output_dir (iso', container, krnl) w)) =
                 outcome_msgs w @
                   [ExtractingMsg iso',
                    Hop2FailedMsg (snd (os_path_split container)) stderr]) \<and>
            (\<forall>e. print_fault E (Hop2FailedMsg (snd (os_path_split container)) stderr) =
                   Some e \<longrightarrow>
               fst (loop_body E iso_dir output_dir (iso', container, krnl) w) = Inl e \<and>
               outcome_msgs (snd (loop_body E iso_dir output_dir (iso', container, krnl) w)) =
                 outcome_msgs w @ [ExtractingMsg iso'])) \<and>
         (returncode = 0 \<longrightarrow>
            calls_made (snd (loop_body E iso_dir output_dir (iso', container, krnl) w)) =
              calls_made w @
                [Mkdtemp, Popen [''7z'', ''e'', os_path_join iso_dir iso', container] t,
                 Popen [''7z'', ''e'', os_path_join t (snd (os_path_split container)), krnl] t,
                 Move (os_path_join t ''ntoskrnl.exe'')
                      (os_path_join output_dir
                         (fst (os_path_splitext iso') @ ''_ntoskrnl.exe''))])"
proof -
  let ?ent = "(iso', container, krnl)"
  let ?ip = "os_path_join iso_dir iso'"
  let ?cn = "snd (os_path_split container)"
  let ?w1 = "w\<lparr>dirs := insert t (dirs w), trace := trace w @ [Mkdtemp]\<rparr>"
  let ?P1 = "Popen [''7z'', ''e'', ?ip, container] t"
  let ?P2 = "Popen [''7z'', ''e'', os_path_join t ?cn, krnl] t"
  let ?src = "os_path_join t ''ntoskrnl.exe''"
  let ?dst = "os_path_join output_dir (fst (os_path_splitext iso') @ ''_ntoskrnl.exe'')"
  let ?m = "Hop2FailedMsg ?cn stderr"
  from fr have t: "t \<noteq> []" "last t \<noteq> CHR ''/''" by (simp_all add: fresh_def)
  from present have p: "os_path_isfile w (os_path_join iso_dir (fst ?ent))" by simp
  from hop1 t(1) have h1: "subprocess_Popen E [''7z'', ''e'', ?ip, container] t
      (?w1\<lparr>sys_stdout := sys_stdout ?w1 @ [ExtractingMsg iso']\<rparr>) = (Inr (rc1, []), w2)"
    by (simp add: seven_zip_extract_Some entered_def)
  then have h1': "subprocess_Popen E [''7z'', ''e'', ?ip, container] t (entered w t iso') =
      (Inr (rc1, []), w2)" by (simp add: entered_def)
  from hop2 t(1) have h2: "subprocess_Popen E [''7z'', ''e'', os_path_join t ?cn, krnl] t w2 =
      (Inr (returncode, stderr), w3)"
    by (simp add: seven_zip_extract_Some)
  note o1 = popen_obs[OF h1' t]
  note o2 = popen_obs[OF h2 t]
  have c3: "calls_made w3 = calls_made w @ [Mkdtemp, ?P1, ?P2]"
    and m3: "outcome_msgs w3 = outcome_msgs w @ [ExtractingMsg iso']"
    and f3: "outside t (files w3) = files w"
    using o1 o2 fr by (simp_all add: entered_obs outside_fresh)
  obtain r wE where wb: "with_body E (os_path_join iso_dir (fst ?ent)) output_dir ?ent (Some t) ?w1
      = (r, wE)"
    by (cases "with_body E (os_path_join iso_dir (fst ?ent)) output_dir ?ent (Some t) ?w1")
  obtain w4 where
    l: "loop_body E iso_dir output_dir ?ent w =
       (case r of Inl e \<Rightarrow> (Inl e, w4)
        | Inr Continue \<Rightarrow> (Inr (), w4)
        | Inr Normal \<Rightarrow> print_unicode E (SuccessMsg (fst ?ent)) w4)"
    and cm: "calls_made w4 = calls_made wE" and om: "outcome_msgs w4 = outcome_msgs wE"
    and ou: "outside t (files w4) = outside t (files wE)"
    by (rule loop_body_present[OF p mk fr wb])
  have cl: "calls_made (snd (loop_body E iso_dir output_dir ?ent w)) = calls_made wE"
    unfolding l using cm by (simp add: print_obs split: sum.splits flow.splits)
  have fl: "outside t (files (snd (loop_body E iso_dir output_dir ?ent w))) =
      outside t (files wE)"
    unfolding l using ou by (simp add: print_frame split: sum.splits flow.splits)
  show ?thesis
  proof (intro conjI impI allI)
    assume ne: "returncode \<noteq> 0"
    have wE: "calls_made wE = calls_made w3 \<and> outside t (files wE) = outside t (files w3)"
    proof (cases "print_fault E ?m")
      case None
      with h1 h2 t(1) ne have "with_body E ?ip output_dir ?ent (Some t) ?w1 =
          (Inr Continue, w3\<lparr>sys_stdout := sys_stdout w3 @ [?m]\<rparr>)"
        by (simp add: with_body_def seven_zip_extract_Some print_ok)
      with wb have "wE = w3\<lparr>sys_stdout := sys_stdout w3 @ [?m]\<rparr>" by simp
      then show ?thesis by simp
    next
      case (Some e)
      with h1 h2 t(1) ne have "with_body E ?ip output_dir ?ent (Some t) ?w1 = (Inl e, w3)"
        by (simp add: with_body_def seven_zip_extract_Some print_fail)
      with wb show ?thesis by simp
    qed
    from cl wE c3
    show "calls_made (snd (loop_body E iso_dir output_dir ?ent w)) =
              calls_made w @ [Mkdtemp, ?P1, ?P2]"
      by simp
    from fl wE f3
    show "outside t (files (snd (loop_body E iso_dir output_dir ?ent w))) = files w"
      by simp
  next
    assume ne: "returncode \<noteq> 0" and pr: "print_fault E ?m = None"
    with h1 h2 t(1) have "with_body E ?ip output_dir ?ent (Some t) ?w1 =
        (Inr Continue, w3\<lparr>sys_stdout := sys_stdout w3 @ [?m]\<rparr>)"
      by (simp add: with_body_def seven_zip_extract_Some print_ok)
    with wb have r: "r = Inr Continue" and wE: "wE = w3\<lparr>sys_stdout := sys_stdout w3 @ [?m]\<rparr>"
      by simp_all
    from l r show "fst (loop_body E iso_dir output_dir ?ent w) = Inr ()" by simp
    from l r om wE m3
    show "outcome_msgs (snd (loop_body E iso_dir output_dir ?ent w)) =
              outcome_msgs w @ [ExtractingMsg iso', ?m]"
      by simp
  next
    fix e
    assume ne: "returncode \<noteq> 0" and pr: "print_fault E ?m = Some e"
    with h1 h2 t(1) have "with_body E ?ip output_dir ?ent (Some t) ?w1 = (Inl e, w3)"
      by (simp add: with_body_def seven_zip_extract_Some print_fail)
    with wb have r: "r = Inl e" and wE: "wE = w3" by simp_all
    from l r show "fst (loop_body E iso_dir output_dir ?ent w) = Inl e" by simp
    from l r om wE m3
    show "outcome_msgs (snd (loop_body E iso_dir output_dir ?ent w)) =
              outcome_msgs w @ [ExtractingMsg iso']"
      by simp
  next
    assume z: "returncode = 0"
    obtain y w4m where mv: "shutil_move E ?src ?dst w3 = (y, w4m)"
      by (cases "shutil_move E ?src ?dst w3")
    with h1 h2 z t(1) have "with_body E ?ip output_dir ?ent (Some t) ?w1 =
        (case y of Inl e \<Rightarrow> Inl e | Inr rd \<Rightarrow> Inr Normal, w4m)"
      by (simp add: with_body_def seven_zip_extract_Some split: sum.splits)
    with wb have wE: "wE = w4m" by simp
    from cl wE c3 move_obs(1)[OF mv]
    show "calls_made (snd (loop_body E iso_dir output_dir ?ent w)) =
              calls_made w @ [Mkdtemp, ?P1, ?P2, Move ?src ?dst]"
      by simp
  qed
qed

text \<open>Status 2 on the second call stops the entry before the move, on a standard output that
  takes every line and on one that takes ASCII only; status 0 with a warning goes on to the
  move.\<close>

theorem hop2_decided_by_status_witness:
  "fst (loop_body (example_env second_call_fails never_refused) ''/in'' ''/out'' win7
          example_world) = Inr () \<and>
   outcome_msgs (snd (loop_body (example_env second_call_fails never_refused) ''/in'' ''/out''
          win7 example_world)) =
     [ExtractingMsg ''en_windows_7_enterprise_with_sp1_x64_dvd_u_677651.iso'',
      Hop2FailedMsg (snd (os_path_split ''sources/install.wim''))
        ''ERROR: no files to process''] \<and>
   calls_made (snd (loop_body (example_env second_call_fails never_refused) ''/in'' ''/out''
          win7 example_world)) =
     [Mkdtemp,
      Popen [''7z'', ''e'',
             os_path_join ''/in'' ''en_windows_7_enterprise_with_sp1_x64_dvd_u_677651.iso'',
             ''sources/install.wim''] ''/tmp/tmpA'',
      Popen [''7z'', ''e'',
             os_path_join ''/tmp/tmpA'' (snd (os_path_split ''sources/install.wim'')),
             ''Windows/System32/ntoskrnl.exe''] ''/tmp/tmpA''] \<and>
   outside ''/tmp/tmpA'' (files (snd (loop_body (example_env second_call_fails never_refused)
          ''/in'' ''/out'' win7 example_world))) = files example_world \<and>
   calls_made (snd (loop_body (example_env second_call_warns never_refused) ''/in'' ''/out''
          win7 example_world)) =
     [Mkdtemp,
      Popen [''7z'', ''e'',
             os_path_join ''/in'' ''en_windows_7_enterprise_with_sp1_x64_dvd_u_677651.iso'',
             ''sources/install.wim''] ''/tmp/tmpA'',
      Popen [''7z'', ''e'',
             os_path_join ''/tmp/tmpA'' (snd (os_path_split ''sources/install.wim'')),
             ''Windows/System32/ntoskrnl.exe''] ''/tmp/tmpA'',
      Move (os_path_join ''/tmp/tmpA'' ''ntoskrnl.exe'')
           (os_path_join ''/out''
              (fst (os_path_splitext ''en_windows_7_enterprise_with_sp1_x64_dvd_u_677651.iso'') @
               ''_ntoskrnl.exe''))] \<and>
   fst (loop_body ((example_env second_call_fails never_refused)\<lparr>print_fault := ascii_stdout\<rparr>)
          ''/in'' ''/out'' win7 example_world) =
     Inl (UnicodeEncodeError ''ascii codec cannot encode character'') \<and>
   outcome_msgs (snd (loop_body
          ((example_env second_call_fails never_refused)\<lparr>print_fault := ascii_stdout\<rparr>)
          ''/in'' ''/out'' win7 example_world)) =
     [ExtractingMsg ''en_windows_7_enterprise_with_sp1_x64_dvd_u_677651.iso''] \<and>
   outside ''/tmp/tmpA'' (files (snd (loop_body
          ((example_env second_call_fails never_refused)\<lparr>print_fault := ascii_stdout\<rparr>)
          ''/in'' ''/out'' win7 example_world))) = files example_world"
proof -
  let ?i = "''en_windows_7_enterprise_with_sp1_x64_dvd_u_677651.iso''"
  let ?c = "''sources/install.wim''"
  let ?k = "''Windows/System32/ntoskrnl.exe''"
  let ?t = "''/tmp/tmpA''"
  let ?E = "example_env second_call_fails never_refused"
  let ?F = "example_env second_call_warns never_refused"
  let ?v2 = "snd (seven_zip_extract ?E (os_path_join ''/in'' ?i) [?c] (Some ?t)
                    (entered example_world ?t ?i))"
  let ?u2 = "snd (seven_zip_extract ?F (os_path_join ''/in'' ?i) [?c] (Some ?t)
                    (entered example_world ?t ?i))"
  have a1: "seven_zip_extract ?E (os_path_join ''/in'' ?i) [?c] (Some ?t)
             (entered example_world ?t ?i) = (Inr (0, []), ?v2)"
    by (simp add: seven_zip_extract_def subprocess_Popen_def example_env_def
        second_call_fails_def Let_def)
  have a2: "seven_zip_extract ?E (os_path_join ?t (snd (os_path_split ?c))) [?k] (Some ?t) ?v2 =
           (Inr (2, ''ERROR: no files to process''),
            snd (seven_zip_extract ?E (os_path_join ?t (snd (os_path_split ?c))) [?k] (Some ?t)
                   ?v2))"
    by (simp add: seven_zip_extract_def subprocess_Popen_def example_env_def
        second_call_fails_def Let_def)
  have b1: "seven_zip_extract ?F (os_path_join ''/in'' ?i) [?c] (Some ?t)
             (entered example_world ?t ?i) = (Inr (0, []), ?u2)"
    by (simp add: seven_zip_extract_def subprocess_Popen_def example_env_def
        second_call_warns_def Let_def)
  have b2: "seven_zip_extract ?F (os_path_join ?t (snd (os_path_split ?c))) [?k] (Some ?t) ?u2 =
           (Inr (0, ''WARNING: headers error''),
            snd (seven_zip_extract ?F (os_path_join ?t (snd (os_path_split ?c))) [?k] (Some ?t)
                   ?u2))"
    by (simp add: seven_zip_extract_def subprocess_Popen_def example_env_def
        second_call_warns_def Let_def)
  let ?A = "?E\<lparr>print_fault := ascii_stdout\<rparr>"
  let ?a2 = "snd (seven_zip_extract ?A (os_path_join ''/in'' ?i) [?c] (Some ?t)
                    (entered example_world ?t ?i))"
  have mkA: "mkdtemp_result ?A example_world = Inr ''/tmp/tmpA''"
    using ex_mkdtemp[of second_call_fails never_refused] by simp
  have c1: "seven_zip_extract ?A (os_path_join ''/in'' ?i) [?c] (Some ?t)
             (entered example_world ?t ?i) = (Inr (0, []), ?a2)"
    by (simp add: seven_zip_extract_def subprocess_Popen_def example_env_def
        second_call_fails_def Let_def)
  have c2: "seven_zip_extract ?A (os_path_join ?t (snd (os_path_split ?c))) [?k] (Some ?t) ?a2 =
           (Inr (2, ''ERROR: no files to process''),
            snd (seven_zip_extract ?A (os_path_join ?t (snd (os_path_split ?c))) [?k] (Some ?t)
                   ?a2))"
    by (simp add: seven_zip_extract_def subprocess_Popen_def example_env_def
        second_call_fails_def Let_def)
  have pa: "print_fault ?A
      (Hop2FailedMsg (snd (os_path_split ?c)) ''ERROR: no files to process'') =
      Some (UnicodeEncodeError ''ascii codec cannot encode character'')"
    by simp
  have pr: "print_fault ?E
      (Hop2FailedMsg (snd (os_path_split ?c)) ''ERROR: no files to process'') = None"
    by (simp add: example_env_def)
  from pr pa hop2_decided_by_status[OF ex_present_win7 mkA ex_fresh c1 c2, of "''/out''"]
    hop2_decided_by_status[OF ex_present_win7 ex_mkdtemp ex_fresh a1 a2, of "''/out''"]
    hop2_decided_by_status[OF ex_present_win7 ex_mkdtemp ex_fresh b1 b2, of "''/out''"]
  show ?thesis by (simp add: ex_obs win7_def)
qed

subsection \<open>C4\<close>

text \<open>
  C4. For every entry of the catalog whose archive exists and for which a workspace \<open>t\<close> was
  acquired: if both extractions succeed (no diagnostic from the first, status 0 from the
  second), the target file exists in the workspace under its base name after the second
  extraction, and the move goes through (its destination is not an existing directory, lies
  outside the workspace, and the move does not raise), then exactly one move is made, from the
  workspace file named by the target's base name to the output directory under the archive's
  name without extension, \<^verbatim>\<open>_\<close> and the target's base name, and outside the workspace the files
  are those from before plus that artifact. The success line (it carries U+2713) is printed
  after the move: when standard output takes it the iteration ends normally, when it does not
  the iteration ends with the exception of the \<^verbatim>\<open>print\<close>, the artifact being there all the
  same. Conversely, whenever the files outside the workspace differ from those before, the
  move was called, after both extractions had succeeded, and no failure line was printed: no
  skip path creates anything there. A move that raises is not excluded by this: \<^verbatim>\<open>shutil.move\<close>
  copies and then unlinks when \<^verbatim>\<open>os.rename\<close> is refused, and can raise with the destination
  written. That both extractions succeed is not enough for the artifact: the move raises when
  the file is not in the workspace.
\<close>

theorem artifact_on_full_success:
  assumes cat: "(iso', container, krnl) \<in> set NTOSKRNL_MAP"
    and present: "os_path_isfile w (os_path_join iso_dir iso')"
    and mk: "mkdtemp_result E w = Inr t" and fr: "fresh w t"
  shows "(\<forall>rc1 w2 stderr w3.
            seven_zip_extract E (os_path_join iso_dir iso') [container] (Some t)
              (entered w t iso') = (Inr (rc1, []), w2) \<longrightarrow>
            seven_zip_extract E (os_path_join t (snd (os_path_split container))) [krnl]
              (Some t) w2 = (Inr (0, stderr), w3) \<longrightarrow>
            os_path_isfile w3 (os_path_join t (snd (os_path_split krnl))) \<longrightarrow>
            \<not> os_path_isdir w
                (os_path_join output_dir
                   (fst (os_path_splitext iso') @ ''_'' @ snd (os_path_split krnl))) \<longrightarrow>
            \<not> in_tree t
                (os_path_join output_dir
                   (fst (os_path_splitext iso') @ ''_'' @ snd (os_path_split krnl))) \<longrightarrow>
            move_fault E w3 (os_path_join t (snd (os_path_split krnl)))
                (os_path_join output_dir
                   (fst (os_path_splitext iso') @ ''_'' @ snd (os_path_split krnl))) = None \<longrightarrow>
            calls_made (snd (loop_body E iso_dir output_dir (iso', container, krnl) w)) =
              calls_made w @
                [Mkdtemp, Popen [''7z'', ''e'', os_path_join iso_dir iso', container] t,
                 Popen [''7z'', ''e'', os_path_join t (snd (os_path_split container)), krnl] t,
                 Move (os_path_join t (snd (os_path_split krnl)))
                      (os_path_join output_dir
                         (fst (os_path_splitext iso') @ ''_'' @ snd (os_path_split krnl)))] \<and>
            outside t (files (snd (loop_body E iso_dir output_dir (iso', container, krnl) w))) =
              insert (os_path_join output_dir
                        (fst (os_path_splitext iso') @ ''_'' @ snd (os_path_split krnl)))
                     (files w) \<and>
            (print_fault E (SuccessMsg iso') = None \<longrightarrow>
               fst (loop_body E iso_dir output_dir (iso', container, krnl) w) = Inr () \<and>
               outcome_msgs (snd (loop_body E iso_dir output_dir (iso', container, krnl) w)) =
                 outcome_msgs w @ [ExtractingMsg iso', SuccessMsg iso']) \<and>
            (\<forall>e. print_fault E (SuccessMsg iso') = Some e \<longrightarrow>
               fst (loop_body E iso_dir output_dir (iso', container, krnl) w) = Inl e \<and>
               outcome_msgs (snd (loop_body E iso_dir output_dir (iso', container, krnl) w)) =
                 outcome_msgs w @ [ExtractingMsg iso'])) \<and>
         (outside t (files (snd (loop_body E iso_dir output_dir (iso', container, krnl) w))) \<noteq>
            files w \<longrightarrow>
            calls_made (snd (loop_body E iso_dir output_dir (iso', container, krnl) w)) =
              calls_made w @
                [Mkdtemp, Popen [''7z'', ''e'', os_path_join iso_dir iso', container] t,
                 Popen [''7z'', ''e'', os_path_join t (snd (os_path_split container)), krnl] t,
                 Move (os_path_join t (snd (os_path_split krnl)))
                      (os_path_join output_dir
                         (fst (os_path_splitext iso') @ ''_'' @ snd (os_path_split krnl)))] \<and>
            (outcome_msgs (snd (loop_body E iso_dir output_dir (iso', container, krnl) w)) =
               outcome_msgs w @ [ExtractingMsg iso'] \<or>
             outcome_msgs (snd (loop_body E iso_dir output_dir (iso', container, krnl) w)) =
               outcome_msgs w @ [ExtractingMsg iso', SuccessMsg iso']))"
proof -
  let ?ent = "(iso', container, krnl)"
  let ?ip = "os_path_join iso_dir iso'"
  let ?cn = "snd (os_path_split container)"
  let ?w1 = "w\<lparr>dirs := insert t (dirs w), trace := trace w @ [Mkdtemp]\<rparr>"
  let ?P1 = "Popen [''7z'', ''e'', ?ip, container] t"
  let ?P2 = "Popen [''7z'', ''e'', os_path_join t ?cn, krnl] t"
  let ?src = "os_path_join t ''ntoskrnl.exe''"
  let ?dst = "os_path_join output_dir (fst (os_path_splitext iso') @ ''_ntoskrnl.exe'')"
  from cat catalog_base_names have bn: "snd (os_path_split krnl) = ''ntoskrnl.exe''" by fastforce
  from fr have t: "t \<noteq> []" "last t \<noteq> CHR ''/''" by (simp_all add: fresh_def)
  from present have p: "os_path_isfile w (os_path_join iso_dir (fst ?ent))" by simp
  obtain r wE where wb: "with_body E (os_path_join iso_dir (fst ?ent)) output_dir ?ent (Some t) ?w1
      = (r, wE)"
    by (cases "with_body E (os_path_join iso_dir (fst ?ent)) output_dir ?ent (Some t) ?w1")
  note f = with_body_frame[OF wb t]
  obtain w4 where
    l: "loop_body E iso_dir output_dir ?ent w =
       (case r of Inl e \<Rightarrow> (Inl e, w4)
        | Inr Continue \<Rightarrow> (Inr (), w4)
        | Inr Normal \<Rightarrow> print_unicode E (SuccessMsg (fst ?ent)) w4)"
    and cm: "calls_made w4 = calls_made wE" and om: "outcome_msgs w4 = outcome_msgs wE"
    and ou: "outside t (files w4) = outside t (files wE)"
    by (rule loop_body_present[OF p mk fr wb])
  have cl: "calls_made (snd (loop_body E iso_dir output_dir ?ent w)) = calls_made wE"
    unfolding l using cm by (simp add: print_obs split: sum.splits flow.splits)
  have fl: "outside t (files (snd (loop_body E iso_dir output_dir ?ent w))) =
      outside t (files wE)"
    unfolding l using ou by (simp add: print_frame split: sum.splits flow.splits)
  have w1o: "outside t (files ?w1) = files w" "outcome_msgs ?w1 = outcome_msgs w"
    "calls_made ?w1 = calls_made w @ [Mkdtemp]"
    using fr by (simp_all add: outside_fresh outcome_msgs_def calls_made_def)
  have B: "outside t (files (snd (loop_body E iso_dir output_dir ?ent w))) \<noteq> files w \<longrightarrow>
            calls_made (snd (loop_body E iso_dir output_dir ?ent w)) =
              calls_made w @ [Mkdtemp, ?P1, ?P2, Move ?src ?dst] \<and>
            (outcome_msgs (snd (loop_body E iso_dir output_dir ?ent w)) =
               outcome_msgs w @ [ExtractingMsg iso'] \<or>
             outcome_msgs (snd (loop_body E iso_dir output_dir ?ent w)) =
               outcome_msgs w @ [ExtractingMsg iso', SuccessMsg iso'])"
  proof
    assume ch: "outside t (files (snd (loop_body E iso_dir output_dir ?ent w))) \<noteq> files w"
    with fl w1o have ne: "outside t (files wE) \<noteq> outside t (files ?w1)" by simp
    with f(5) have tr: "trace wE = trace ?w1 @ [?P1, ?P2, Move ?src ?dst]" by simp
    then have "calls_made wE = calls_made ?w1 @ [?P1, ?P2, Move ?src ?dst]"
      by (simp add: calls_made_def)
    with cl w1o have C: "calls_made (snd (loop_body E iso_dir output_dir ?ent w)) =
              calls_made w @ [Mkdtemp, ?P1, ?P2, Move ?src ?dst]"
      by simp
    from ne f(7) have nc: "r \<noteq> Inr Continue" by auto
    with f(6) w1o have oE: "outcome_msgs wE = outcome_msgs w @ [ExtractingMsg iso']" by simp
    have "outcome_msgs (snd (loop_body E iso_dir output_dir ?ent w)) =
               outcome_msgs w @ [ExtractingMsg iso'] \<or>
          outcome_msgs (snd (loop_body E iso_dir output_dir ?ent w)) =
               outcome_msgs w @ [ExtractingMsg iso', SuccessMsg iso']"
    proof (cases r)
      case (Inl e)
      with l om oE show ?thesis by simp
    next
      case (Inr fl')
      with nc have "r = Inr Normal" by (cases fl') simp_all
      with om oE show ?thesis unfolding l by (simp add: print_obs)
    qed
    with C show "calls_made (snd (loop_body E iso_dir output_dir ?ent w)) =
              calls_made w @ [Mkdtemp, ?P1, ?P2, Move ?src ?dst] \<and>
            (outcome_msgs (snd (loop_body E iso_dir output_dir ?ent w)) =
               outcome_msgs w @ [ExtractingMsg iso'] \<or>
             outcome_msgs (snd (loop_body E iso_dir output_dir ?ent w)) =
               outcome_msgs w @ [ExtractingMsg iso', SuccessMsg iso'])"
      by simp
  qed
  have A: "calls_made (snd (loop_body E iso_dir output_dir ?ent w)) =
              calls_made w @ [Mkdtemp, ?P1, ?P2, Move ?src ?dst] \<and>
            outside t (files (snd (loop_body E iso_dir output_dir ?ent w))) =
              insert ?dst (files w) \<and>
            (print_fault E (SuccessMsg iso') = None \<longrightarrow>
               fst (loop_body E iso_dir output_dir ?ent w) = Inr () \<and>
               outcome_msgs (snd (loop_body E iso_dir output_dir ?ent w)) =
                 outcome_msgs w @ [ExtractingMsg iso', SuccessMsg iso']) \<and>
            (\<forall>e. print_fault E (SuccessMsg iso') = Some e \<longrightarrow>
               fst (loop_body E iso_dir output_dir ?ent w) = Inl e \<and>
               outcome_msgs (snd (loop_body E iso_dir output_dir ?ent w)) =
                 outcome_msgs w @ [ExtractingMsg iso'])"
    if hop1: "seven_zip_extract E ?ip [container] (Some t) (entered w t iso') =
                (Inr (rc1, []), w2)"
      and hop2: "seven_zip_extract E (os_path_join t ?cn) [krnl] (Some t) w2 =
                (Inr (0, stderr), w3)"
      and ex: "os_path_isfile w3 ?src" and nd: "\<not> os_path_isdir w ?dst"
      and out: "\<not> in_tree t ?dst" and mf: "move_fault E w3 ?src ?dst = None"
    for rc1 w2 stderr w3
  proof -
    from hop1 t(1) have h1: "subprocess_Popen E [''7z'', ''e'', ?ip, container] t
        (?w1\<lparr>sys_stdout := sys_stdout ?w1 @ [ExtractingMsg iso']\<rparr>) = (Inr (rc1, []), w2)"
      by (simp add: seven_zip_extract_Some entered_def)
    then have h1': "subprocess_Popen E [''7z'', ''e'', ?ip, container] t (entered w t iso') =
        (Inr (rc1, []), w2)" by (simp add: entered_def)
    from hop2 t(1) have h2: "subprocess_Popen E [''7z'', ''e'', os_path_join t ?cn, krnl] t w2 =
        (Inr (0, stderr), w3)"
      by (simp add: seven_zip_extract_Some)
    note o1 = popen_obs[OF h1' t]
    note o2 = popen_obs[OF h2 t]
    have c3: "calls_made w3 = calls_made w @ [Mkdtemp, ?P1, ?P2]"
      and m3: "outcome_msgs w3 = outcome_msgs w @ [ExtractingMsg iso']"
      and f3: "outside t (files w3) = files w"
      and d3: "dirs w3 = insert t (dirs w)"
      using o1 o2 fr by (simp_all add: entered_obs outside_fresh)
    from out have "?dst \<noteq> t" by (auto simp: in_tree_def)
    with nd d3 have nd3: "?dst \<notin> dirs w3" by (simp add: os_path_isdir_def)
    from ex have ex3: "?src \<in> files w3" by (simp add: os_path_isfile_def)
    note mv = move_ok[OF ex3 nd3 mf]
    let ?w4m = "w3\<lparr>files := insert ?dst (files w3 - {?src}),
                   trace := trace w3 @ [Move ?src ?dst]\<rparr>"
    from h1 h2 mv t(1) have "with_body E ?ip output_dir ?ent (Some t) ?w1 = (Inr Normal, ?w4m)"
      by (simp add: with_body_def seven_zip_extract_Some)
    with wb have r: "r = Inr Normal" and wE: "wE = ?w4m" by simp_all
    have "in_tree t ?src" using t by (simp add: in_tree_join_plain plain_name_def)
    then have "outside t (files w3 - {?src}) = outside t (files w3)"
      by (auto simp: outside_def)
    with out f3 have fE: "outside t (files wE) = insert ?dst (files w)"
      unfolding wE by (simp add: outside_insert_out)
    have cE: "calls_made wE = calls_made w3 @ [Move ?src ?dst]"
      unfolding wE by (simp add: calls_made_def)
    have mE: "outcome_msgs wE = outcome_msgs w3" unfolding wE by (simp add: outcome_msgs_def)
    have lb: "loop_body E iso_dir output_dir ?ent w = print_unicode E (SuccessMsg iso') w4"
      unfolding l using r by simp
    from cl cE c3 fl fE om mE m3 show ?thesis
      unfolding lb by (simp add: print_fst print_obs)
  qed
  from A B show ?thesis unfolding bn by simp
qed

text \<open>The Windows 7 entry with a \<^verbatim>\<open>7z\<close> that extracts what it is asked for, on a standard
  output that takes every line and on one that takes ASCII only.\<close>

theorem artifact_on_full_success_witness:
  "fst (loop_body (example_env extracts_member never_refused) ''/in'' ''/out'' win7
          example_world) = Inr () \<and>
   outcome_msgs (snd (loop_body (example_env extracts_member never_refused) ''/in'' ''/out''
          win7 example_world)) =
     [ExtractingMsg ''en_windows_7_enterprise_with_sp1_x64_dvd_u_677651.iso'',
      SuccessMsg ''en_windows_7_enterprise_with_sp1_x64_dvd_u_677651.iso''] \<and>
   calls_made (snd (loop_body (example_env extracts_member never_refused) ''/in'' ''/out''
          win7 example_world)) =
     [Mkdtemp,
      Popen [''7z'', ''e'', ''/in/en_windows_7_enterprise_with_sp1_x64_dvd_u_677651.iso'',
             ''sources/install.wim''] ''/tmp/tmpA'',
      Popen [''7z'', ''e'', ''/tmp/tmpA/install.wim'', ''Windows/System32/ntoskrnl.exe'']
            ''/tmp/tmpA'',
      Move ''/tmp/tmpA/ntoskrnl.exe''
           ''/out/en_windows_7_enterprise_with_sp1_x64_dvd_u_677651_ntoskrnl.exe''] \<and>
   outside ''/tmp/tmpA'' (files (snd (loop_body (example_env extracts_member never_refused)
          ''/in'' ''/out'' win7 example_world))) =
     insert ''/out/en_windows_7_enterprise_with_sp1_x64_dvd_u_677651_ntoskrnl.exe''
       (files example_world) \<and>
   outside ''/tmp/tmpA'' (files (snd (loop_body (example_env extracts_member never_refused)
          ''/in'' ''/out'' win7 example_world))) \<noteq> files example_world \<and>
   fst (loop_body ((example_env extracts_member never_refused)\<lparr>print_fault := ascii_stdout\<rparr>)
          ''/in'' ''/out'' win7 example_world) =
     Inl (UnicodeEncodeError ''ascii codec cannot encode character'') \<and>
   outcome_msgs (snd (loop_body
          ((example_env extracts_member never_refused)\<lparr>print_fault := ascii_stdout\<rparr>)
          ''/in'' ''/out'' win7 example_world)) =
     [ExtractingMsg ''en_windows_7_enterprise_with_sp1_x64_dvd_u_677651.iso''] \<and>
   outside ''/tmp/tmpA'' (files (snd (loop_body
          ((example_env extracts_member never_refused)\<lparr>print_fault := ascii_stdout\<rparr>)
          ''/in'' ''/out'' win7 example_world))) =
     insert ''/out/en_windows_7_enterprise_with_sp1_x64_dvd_u_677651_ntoskrnl.exe''
       (files example_world)"
proof -
  let ?i = "''en_windows_7_enterprise_with_sp1_x64_dvd_u_677651.iso''"
  let ?c = "''sources/install.wim''"
  let ?k = "''Windows/System32/ntoskrnl.exe''"
  let ?t = "''/tmp/tmpA''"
  let ?E = "example_env extracts_member never_refused"
  let ?v2 = "snd (seven_zip_extract ?E (os_path_join ''/in'' ?i) [?c] (Some ?t)
                    (entered example_world ?t ?i))"
  let ?v3 = "snd (seven_zip_extract ?E (os_path_join ?t (snd (os_path_split ?c))) [?k] (Some ?t)
                    ?v2)"
  let ?dst = "os_path_join ''/out'' (fst (os_path_splitext ?i) @ ''_'' @ snd (os_path_split ?k))"
  have cat: "(?i, ?c, ?k) \<in> set NTOSKRNL_MAP" by code_simp
  have a1: "seven_zip_extract ?E (os_path_join ''/in'' ?i) [?c] (Some ?t)
             (entered example_world ?t ?i) = (Inr (0, []), ?v2)"
    by (simp add: seven_zip_extract_def subprocess_Popen_def example_env_def
        extracts_member_def Let_def)
  have a2: "seven_zip_extract ?E (os_path_join ?t (snd (os_path_split ?c))) [?k] (Some ?t) ?v2 =
           (Inr (0, []), ?v3)"
    by (simp add: seven_zip_extract_def subprocess_Popen_def example_env_def
        extracts_member_def Let_def)
  have ex: "os_path_isfile ?v3 (os_path_join ?t (snd (os_path_split ?k)))" by code_simp
  have nd: "\<not> os_path_isdir example_world ?dst" by code_simp
  have out: "\<not> in_tree ?t ?dst" by code_simp
  have mf: "move_fault ?E ?v3 (os_path_join ?t (snd (os_path_split ?k))) ?dst = None"
    by (simp add: example_env_def)
  have v: "os_path_join ''/out'' (fst (os_path_splitext ?i) @ ''_'' @ snd (os_path_split ?k)) =
      ''/out/en_windows_7_enterprise_with_sp1_x64_dvd_u_677651_ntoskrnl.exe''"
    "os_path_join ?t (snd (os_path_split ?k)) = ''/tmp/tmpA/ntoskrnl.exe''"
    "os_path_join ?t (snd (os_path_split ?c)) = ''/tmp/tmpA/install.wim''"
    "os_path_join ''/in'' ?i = ''/in/en_windows_7_enterprise_with_sp1_x64_dvd_u_677651.iso''"
    by code_simp+
  note T = artifact_on_full_success[OF cat ex_present_win7
      ex_mkdtemp[of extracts_member never_refused] ex_fresh, where output_dir = "''/out''"]
  have ne: "outside ?t (files (snd (loop_body ?E ''/in'' ''/out'' (?i, ?c, ?k) example_world))) \<noteq>
      files example_world"
    by code_simp
  have pr: "print_fault ?E (SuccessMsg ?i) = None" by (simp add: example_env_def)
  let ?A = "?E\<lparr>print_fault := ascii_stdout\<rparr>"
  let ?a2 = "snd (seven_zip_extract ?A (os_path_join ''/in'' ?i) [?c] (Some ?t)
                    (entered example_world ?t ?i))"
  let ?a3 = "snd (seven_zip_extract ?A (os_path_join ?t (snd (os_path_split ?c))) [?k] (Some ?t)
                    ?a2)"
  have mkA: "mkdtemp_result ?A example_world = Inr ''/tmp/tmpA''"
    using ex_mkdtemp[of extracts_member never_refused] by simp
  have c1: "seven_zip_extract ?A (os_path_join ''/in'' ?i) [?c] (Some ?t)
             (entered example_world ?t ?i) = (Inr (0, []), ?a2)"
    by (simp add: seven_zip_extract_def subprocess_Popen_def example_env_def
        extracts_member_def Let_def)
  have c2: "seven_zip_extract ?A (os_path_join ?t (snd (os_path_split ?c))) [?k] (Some ?t) ?a2 =
           (Inr (0, []), ?a3)"
    by (simp add: seven_zip_extract_def subprocess_Popen_def example_env_def
        extracts_member_def Let_def)
  have exA: "os_path_isfile ?a3 (os_path_join ?t (snd (os_path_split ?k)))" by code_simp
  have mfA: "move_fault ?A ?a3 (os_path_join ?t (snd (os_path_split ?k))) ?dst = None"
    by (simp add: example_env_def)
  have pa: "print_fault ?A (SuccessMsg ?i) =
      Some (UnicodeEncodeError ''ascii codec cannot encode character'')"
    by simp
  note U = artifact_on_full_success[OF cat ex_present_win7 mkA ex_fresh,
      where output_dir = "''/out''"]
  from T[THEN conjunct1, rule_format, OF a1 a2 ex nd out mf, unfolded v]
    U[THEN conjunct1, rule_format, OF c1 c2 exA nd out mfA, unfolded v]
    T[THEN conjunct2, rule_format, OF ne] ne pr pa
  show ?thesis by (simp add: ex_obs win7_def)
qed

text \<open>Both extractions report success (status 0, no diagnostic) but write nothing: the move
  raises, the iteration ends with that exception, and no artifact exists. And with a \<^verbatim>\<open>7z\<close>
  that extracts the file and a move whose copy is made but whose unlink is refused, the
  iteration ends with the exception of the move although the artifact was written.\<close>

theorem no_artifact_when_nothing_extracted:
  "fst (seven_zip_extract (example_env extracts_nothing never_refused)
          ''/in/en_windows_7_enterprise_with_sp1_x64_dvd_u_677651.iso''
          [''sources/install.wim''] (Some ''/tmp/tmpA'')
          (entered example_world ''/tmp/tmpA''
             ''en_windows_7_enterprise_with_sp1_x64_dvd_u_677651.iso'')) = Inr (0, []) \<and>
   fst (loop_body (example_env extracts_nothing never_refused) ''/in'' ''/out'' win7
          example_world) = Inl (OSError ''No such file or directory'') \<and>
   outcome_msgs (snd (loop_body (example_env extracts_nothing never_refused) ''/in'' ''/out''
          win7 example_world)) =
     [ExtractingMsg ''en_windows_7_enterprise_with_sp1_x64_dvd_u_677651.iso''] \<and>
   calls_made (snd (loop_body (example_env extracts_nothing never_refused) ''/in'' ''/out''
          win7 example_world)) =
     [Mkdtemp,
      Popen [''7z'', ''e'', ''/in/en_windows_7_enterprise_with_sp1_x64_dvd_u_677651.iso'',
             ''sources/install.wim''] ''/tmp/tmpA'',
      Popen [''7z'', ''e'', ''/tmp/tmpA/install.wim'', ''Windows/System32/ntoskrnl.exe'']
            ''/tmp/tmpA'',
      Move ''/tmp/tmpA/ntoskrnl.exe''
           ''/out/en_windows_7_enterprise_with_sp1_x64_dvd_u_677651_ntoskrnl.exe''] \<and>
   files (snd (loop_body (example_env extracts_nothing never_refused) ''/in'' ''/out'' win7
          example_world)) = files example_world \<and>
   fst (loop_body ((example_env extracts_member never_refused)\<lparr>move_fault := unlink_refused\<rparr>)
          ''/in'' ''/out'' win7 example_world) = Inl (OSError ''Permission denied'') \<and>
   files (snd (loop_body
          ((example_env extracts_member never_refused)\<lparr>move_fault := unlink_refused\<rparr>)
          ''/in'' ''/out'' win7 example_world)) =
     insert ''/out/en_windows_7_enterprise_with_sp1_x64_dvd_u_677651_ntoskrnl.exe''
       (files example_world)"
  by code_simp

subsection \<open>C5\<close>




subsection \<open>C6\<close>

text \<open>
  C6. For every catalog entry whose source archive path (the input directory joined with the
  entry's name) is not an existing file, the iteration does nothing but print the not-found
  line: no call is made (no workspace is created, \<^verbatim>\<open>7z\<close> is not launched) and directories and
  files are as before. The line carries U+2717. When standard output takes it, the line is
  printed, the iteration ends normally and the loop goes on with the next entry. When it
  does not, the \<^verbatim>\<open>print\<close> raises, nothing is printed, and the exception ends the loop at this
  entry: \<^verbatim>\<open>main\<close> has no handler.
\<close>

theorem not_found_skipped:
  assumes "\<not> os_path_isfile w (os_path_join iso_dir iso')"
  shows "trace (snd (loop_body E iso_dir output_dir (iso', container, krnl) w)) = trace w \<and>
         dirs (snd (loop_body E iso_dir output_dir (iso', container, krnl) w)) = dirs w \<and>
         files (snd (loop_body E iso_dir output_dir (iso', container, krnl) w)) = files w \<and>
         (print_fault E (NotFoundMsg iso') = None \<longrightarrow>
            loop_body E iso_dir output_dir (iso', container, krnl) w =
              (Inr (), w\<lparr>sys_stdout := sys_stdout w @ [NotFoundMsg iso']\<rparr>) \<and>
            main_loop E iso_dir output_dir ((iso', container, krnl) # rest) w =
              main_loop E iso_dir output_dir rest
                (w\<lparr>sys_stdout := sys_stdout w @ [NotFoundMsg iso']\<rparr>)) \<and>
         (\<forall>e. print_fault E (NotFoundMsg iso') = Some e \<longrightarrow>
            loop_body E iso_dir output_dir (iso', container, krnl) w = (Inl e, w) \<and>
            main_loop E iso_dir output_dir ((iso', container, krnl) # rest) w = (Inl e, w))"
proof -
  from assms have l: "loop_body E iso_dir output_dir (iso', container, krnl) w =
      print_unicode E (NotFoundMsg iso') w"
    by (simp add: loop_body_absent)
  show ?thesis unfolding main_loop.simps l
    by (simp add: print_frame print_ok print_fail)
qed

text \<open>An entry whose archive is not in the input directory, on a standard output that takes
  every line and on one that takes ASCII only.\<close>

theorem not_found_skipped_witness:
  "\<not> os_path_isfile example_world (os_path_join ''/in'' ''missing.iso'') \<and>
   print_fault (example_env extracts_member never_refused) (NotFoundMsg ''missing.iso'') = None \<and>
   loop_body (example_env extracts_member never_refused) ''/in'' ''/out''
       (''missing.iso'', ''sources/install.wim'', ''ntoskrnl.exe'') example_world =
     (Inr (), example_world\<lparr>sys_stdout := [NotFoundMsg ''missing.iso'']\<rparr>) \<and>
   trace (snd (loop_body (example_env extracts_member never_refused) ''/in'' ''/out''
       (''missing.iso'', ''sources/install.wim'', ''ntoskrnl.exe'') example_world)) = [] \<and>
   main_loop (example_env extracts_member never_refused) ''/in'' ''/out''
       [(''missing.iso'', ''sources/install.wim'', ''ntoskrnl.exe'')] example_world =
     (Inr (), example_world\<lparr>sys_stdout := [NotFoundMsg ''missing.iso'']\<rparr>) \<and>
   loop_body ((example_env extracts_member never_refused)\<lparr>print_fault := ascii_stdout\<rparr>)
       ''/in'' ''/out'' (''missing.iso'', ''sources/install.wim'', ''ntoskrnl.exe'')
       example_world =
     (Inl (UnicodeEncodeError ''ascii codec cannot encode character''), example_world)"
proof -
  let ?E = "example_env extracts_member never_refused"
  let ?A = "?E\<lparr>print_fault := ascii_stdout\<rparr>"
  have h: "\<not> os_path_isfile example_world (os_path_join ''/in'' ''missing.iso'')"
    by (simp add: os_path_isfile_def example_world_def os_path_join_def)
  have pr: "print_fault ?E (NotFoundMsg ''missing.iso'') = None"
    by (simp add: example_env_def)
  have pa: "print_fault ?A (NotFoundMsg ''missing.iso'') =
      Some (UnicodeEncodeError ''ascii codec cannot encode character'')"
    by simp
  have so: "sys_stdout example_world = []" "trace example_world = []"
    by (simp_all add: example_world_def)
  note T = not_found_skipped[OF h, where E = ?E and output_dir = "''/out''"
      and container = "''sources/install.wim''" and krnl = "''ntoskrnl.exe''" and rest = "[]"]
  note U = not_found_skipped[OF h, where E = ?A and output_dir = "''/out''"
      and container = "''sources/install.wim''" and krnl = "''ntoskrnl.exe''" and rest = "[]"]
  from T pr have 1: "loop_body ?E ''/in'' ''/out''
       (''missing.iso'', ''sources/install.wim'', ''ntoskrnl.exe'') example_world =
     (Inr (), example_world\<lparr>sys_stdout := sys_stdout example_world @
        [NotFoundMsg ''missing.iso'']\<rparr>)"
    and 2: "main_loop ?E ''/in'' ''/out''
       [(''missing.iso'', ''sources/install.wim'', ''ntoskrnl.exe'')] example_world =
     main_loop ?E ''/in'' ''/out'' []
       (example_world\<lparr>sys_stdout := sys_stdout example_world @
          [NotFoundMsg ''missing.iso'']\<rparr>)"
    and 3: "trace (snd (loop_body ?E ''/in'' ''/out''
       (''missing.iso'', ''sources/install.wim'', ''ntoskrnl.exe'') example_world)) =
       trace example_world"
    by blast+
  from U pa have 4: "loop_body ?A ''/in'' ''/out''
       (''missing.iso'', ''sources/install.wim'', ''ntoskrnl.exe'') example_world =
     (Inl (UnicodeEncodeError ''ascii codec cannot encode character''), example_world)"
    by blast
  from h pr 1 2 3 4 so show ?thesis by simp
qed

text \<open>On a standard output that takes ASCII only (Python 2.7 writing to a pipe, or an ASCII
  locale), the iteration of an entry whose archive is missing raises \<^verbatim>\<open>UnicodeEncodeError\<close>
  and emits no not-found line. On the example world, where the archive of the first catalog
  entry is missing, \<^verbatim>\<open>main\<close> ends with that exception and no later entry is examined.\<close>

theorem not_found_line_unprintable:
  "os_path_isfile example_world (os_path_join ''/in'' ''missing.iso'') = False \<and>
   fst (loop_body ((example_env extracts_member never_refused)\<lparr>print_fault := ascii_stdout\<rparr>)
          ''/in'' ''/out'' (''missing.iso'', ''sources/install.wim'', ''ntoskrnl.exe'')
          example_world) =
     Inl (UnicodeEncodeError ''ascii codec cannot encode character'') \<and>
   sys_stdout (snd (loop_body
          ((example_env extracts_member never_refused)\<lparr>print_fault := ascii_stdout\<rparr>)
          ''/in'' ''/out'' (''missing.iso'', ''sources/install.wim'', ''ntoskrnl.exe'')
          example_world)) = [] \<and>
   fst (main ((example_env extracts_member never_refused)\<lparr>print_fault := ascii_stdout\<rparr>)
          example_args example_world) =
     Inl (UnicodeEncodeError ''ascii codec cannot encode character'') \<and>
   attempted (snd (main
          ((example_env extracts_member never_refused)\<lparr>print_fault := ascii_stdout\<rparr>)
          example_args example_world)) = [] \<and>
   trace (snd (main
          ((example_env extracts_member never_refused)\<lparr>print_fault := ascii_stdout\<rparr>)
          example_args example_world)) = []"
  by code_simp

subsection \<open>C7\<close>

text \<open>
  C7. If the input directory or the output directory is not an existing directory, \<^verbatim>\<open>main\<close>
  raises an exception that names the directory, and the world is as it was: no entry has been
  examined, nothing was printed, no call was made.
\<close>

theorem invalid_directory_is_fatal:
  assumes "\<not> os_path_isdir w (args_iso_dir a) \<or> \<not> os_path_isdir w (args_output_dir a)"
  shows "main E a w =
           (Inl (Exception
              (if \<not> os_path_isdir w (args_iso_dir a)
               then args_iso_dir a @ '' is not a valid ISO directory''
               else args_output_dir a @ '' is not a valid output directory'')), w)"
  using assms by (auto simp: main_def Let_def)

text \<open>An output directory that does not exist.\<close>

theorem invalid_directory_is_fatal_witness:
  "\<not> os_path_isdir example_world ''/nowhere'' \<and>
   main (example_env extracts_member never_refused)
        \<lparr>args_iso_dir = ''/in'', args_output_dir = ''/nowhere''\<rparr> example_world =
     (Inl (Exception ''/nowhere is not a valid output directory''), example_world)"
proof -
  have h: "\<not> os_path_isdir example_world ''/nowhere''"
    by (simp add: os_path_isdir_def example_world_def)
  have i: "os_path_isdir example_world ''/in''"
    by (simp add: os_path_isdir_def example_world_def)
  from invalid_directory_is_fatal[of example_world
      "\<lparr>args_iso_dir = ''/in'', args_output_dir = ''/nowhere''\<rparr>"
      "example_env extracts_member never_refused"] h i
  show ?thesis by simp
qed

subsection \<open>C8\<close>

text \<open>
  C8. Whether \<^verbatim>\<open>7z\<close> can be launched is not checked before the loop. In an environment where
  every launch raises \<open>e\<close>: if no archive of the catalog exists and standard output takes the
  not-found lines, the loop runs to its end and only prints those lines; if the entries before
  the first one whose archive exists have their not-found lines printed, \<open>e\<close> escapes from that
  entry, after those lines, the creation of that entry's workspace and its progress line, and
  the run ends there with \<open>e\<close>.
\<close>

theorem missing_tool_surfaces_at_first_archive:
  assumes absent: "\<forall>v args cwd. popen_result E v args cwd = Inl e"
  shows "((\<forall>x \<in> set cat. \<not> os_path_isfile w (os_path_join iso_dir (fst x))) \<longrightarrow>
          (\<forall>x \<in> set cat. print_fault E (NotFoundMsg (fst x)) = None) \<longrightarrow>
            main_loop E iso_dir output_dir cat w =
              (Inr (), w\<lparr>sys_stdout := sys_stdout w @ map (\<lambda>x. NotFoundMsg (fst x)) cat\<rparr>)) \<and>
         (\<forall>pre ent post t.
            cat = pre @ ent # post \<longrightarrow>
            (\<forall>x \<in> set pre. \<not> os_path_isfile w (os_path_join iso_dir (fst x))) \<longrightarrow>
            (\<forall>x \<in> set pre. print_fault E (NotFoundMsg (fst x)) = None) \<longrightarrow>
            os_path_isfile w (os_path_join iso_dir (fst ent)) \<longrightarrow>
            mkdtemp_result E
              (w\<lparr>sys_stdout := sys_stdout w @ map (\<lambda>x. NotFoundMsg (fst x)) pre\<rparr>) = Inr t \<longrightarrow>
            fresh w t \<longrightarrow>
            fst (main_loop E iso_dir output_dir cat w) = Inl e \<and>
            outcome_msgs (snd (main_loop E iso_dir output_dir cat w)) =
              outcome_msgs w @ map (\<lambda>x. NotFoundMsg (fst x)) pre @ [ExtractingMsg (fst ent)] \<and>
            calls_made (snd (main_loop E iso_dir output_dir cat w)) =
              calls_made w @
                [Mkdtemp,
                 Popen [''7z'', ''e'', os_path_join iso_dir (fst ent), fst (snd ent)] t])"
proof (intro conjI impI allI)
  assume "\<forall>x \<in> set cat. \<not> os_path_isfile w (os_path_join iso_dir (fst x))"
    and "\<forall>x \<in> set cat. print_fault E (NotFoundMsg (fst x)) = None"
  then show "main_loop E iso_dir output_dir cat w =
      (Inr (), w\<lparr>sys_stdout := sys_stdout w @ map (\<lambda>x. NotFoundMsg (fst x)) cat\<rparr>)"
    by (rule main_loop_all_absent)
next
  fix pre post :: "entry list" and ent :: entry and t :: path
  let ?wp = "w\<lparr>sys_stdout := sys_stdout w @ map (\<lambda>x. NotFoundMsg (fst x)) pre\<rparr>"
  let ?w1 = "?wp\<lparr>dirs := insert t (dirs ?wp), trace := trace ?wp @ [Mkdtemp]\<rparr>"
  let ?ip = "os_path_join iso_dir (fst ent)"
  assume cat: "cat = pre @ ent # post"
    and ab: "\<forall>x \<in> set pre. \<not> os_path_isfile w (os_path_join iso_dir (fst x))"
    and pp: "\<forall>x \<in> set pre. print_fault E (NotFoundMsg (fst x)) = None"
    and pr: "os_path_isfile w ?ip"
    and mk: "mkdtemp_result E ?wp = Inr t" and fr: "fresh w t"
  obtain i c k where ent: "ent = (i, c, k)" by (cases ent)
  from fr have t: "t \<noteq> []" "last t \<noteq> CHR ''/''" by (simp_all add: fresh_def)
  from fr have frp: "fresh ?wp t" by (simp add: fresh_def)
  from pr have prp: "os_path_isfile ?wp ?ip" by (simp add: os_path_isfile_def)
  from main_loop_all_absent[OF ab pp, of output_dir]
  have pre: "main_loop E iso_dir output_dir pre w = (Inr (), ?wp)" .
  let ?wx = "?w1\<lparr>sys_stdout := sys_stdout ?w1 @ [ExtractingMsg i]\<rparr>"
  let ?w2 = "?wx\<lparr>trace := trace ?wx @ [Popen [''7z'', ''e'', ?ip, c] t]\<rparr>"
  from absent have h1: "subprocess_Popen E [''7z'', ''e'', ?ip, c] t ?wx = (Inl e, ?w2)"
    by (simp add: subprocess_Popen_def)
  with t(1) have "with_body E ?ip output_dir (i, c, k) (Some t) ?w1 = (Inl e, ?w2)"
    by (simp add: with_body_def seven_zip_extract_Some)
  with ent have wb: "with_body E (os_path_join iso_dir (fst ent)) output_dir ent (Some t) ?w1 =
      (Inl e, ?w2)" by simp
  obtain w4 where
    l: "loop_body E iso_dir output_dir ent ?wp =
       (case (Inl e :: exn + flow) of Inl e \<Rightarrow> (Inl e, w4)
        | Inr Continue \<Rightarrow> (Inr (), w4)
        | Inr Normal \<Rightarrow> print_unicode E (SuccessMsg (fst ent)) w4)"
    and cm: "calls_made w4 = calls_made ?w2" and om: "outcome_msgs w4 = outcome_msgs ?w2"
    by (rule loop_body_present[OF prp mk frp wb])
  from l have lb: "loop_body E iso_dir output_dir ent ?wp = (Inl e, w4)" by simp
  from cat pre lb have ml: "main_loop E iso_dir output_dir cat w = (Inl e, w4)"
    by (simp add: main_loop_append)
  have c2: "calls_made ?w2 = calls_made w @ [Mkdtemp, Popen [''7z'', ''e'', ?ip, c] t]"
    by (simp add: calls_made_def)
  have m2: "outcome_msgs ?w2 =
      outcome_msgs w @ map (\<lambda>x. NotFoundMsg (fst x)) pre @ [ExtractingMsg i]"
    by (simp add: outcome_msgs_def filter_map comp_def)
  from ml cm om c2 m2 ent
  show "fst (main_loop E iso_dir output_dir cat w) = Inl e"
    and "outcome_msgs (snd (main_loop E iso_dir output_dir cat w)) =
              outcome_msgs w @ map (\<lambda>x. NotFoundMsg (fst x)) pre @ [ExtractingMsg (fst ent)]"
    and "calls_made (snd (main_loop E iso_dir output_dir cat w)) =
              calls_made w @
                [Mkdtemp,
                 Popen [''7z'', ''e'', os_path_join iso_dir (fst ent), fst (snd ent)] t]"
    by simp_all
qed

text \<open>The catalog with no archive present, and with the Windows 7 archive present.\<close>

theorem missing_tool_surfaces_at_first_archive_witness:
  "main_loop (example_env not_installed never_refused) ''/in'' ''/out'' NTOSKRNL_MAP
       (example_world\<lparr>files := {}\<rparr>) =
     (Inr (), example_world\<lparr>files := {},
                sys_stdout := map (\<lambda>x. NotFoundMsg (fst x)) NTOSKRNL_MAP\<rparr>) \<and>
   fst (main_loop (example_env not_installed never_refused) ''/in'' ''/out'' NTOSKRNL_MAP
          example_world) = Inl (OSError ''No such file or directory: 7z'') \<and>
   outcome_msgs (snd (main_loop (example_env not_installed never_refused) ''/in'' ''/out''
          NTOSKRNL_MAP example_world)) =
     [NotFoundMsg ''en_windows_xp_professional_with_service_pack_3_x86_cd_x14-80428.iso'',
      ExtractingMsg ''en_windows_7_enterprise_with_sp1_x64_dvd_u_677651.iso''] \<and>
   calls_made (snd (main_loop (example_env not_installed never_refused) ''/in'' ''/out''
          NTOSKRNL_MAP example_world)) =
     [Mkdtemp,
      Popen [''7z'', ''e'', os_path_join ''/in'' (fst win7), fst (snd win7)] ''/tmp/tmpA'']"
proof -
  let ?F = "example_env not_installed never_refused"
  let ?e = "OSError ''No such file or directory: 7z''"
  let ?xp = "(''en_windows_xp_professional_with_service_pack_3_x86_cd_x14-80428.iso'',
              os_path_join ''I386'' ''NTOSKRNL.EX_'', ''ntoskrnl.exe'')"
  let ?post = "[(''en_windows_8_1_enterprise_x64_dvd_2971902.iso'',
                 os_path_join ''sources'' ''install.wim'',
                 os_path_join (os_path_join ''Windows'' ''System32'') ''ntoskrnl.exe''),
                (''en_windows_10_enterprise_version_1703_updated_march_2017_x64_dvd_10189290.iso'',
                 os_path_join ''sources'' ''install.wim'',
                 os_path_join (os_path_join ''Windows'' ''System32'') ''ntoskrnl.exe'')]"
  have ab: "\<forall>v args cwd. popen_result ?F v args cwd = Inl ?e"
    by (simp add: example_env_def not_installed_def)
  have none: "\<forall>x \<in> set NTOSKRNL_MAP.
      \<not> os_path_isfile (example_world\<lparr>files := {}\<rparr>) (os_path_join ''/in'' (fst x))"
    by (simp add: os_path_isfile_def)
  have pall: "\<forall>x \<in> set NTOSKRNL_MAP. print_fault ?F (NotFoundMsg (fst x)) = None"
    by (simp add: example_env_def)
  have ppre: "\<forall>x \<in> set [?xp]. print_fault ?F (NotFoundMsg (fst x)) = None"
    by (simp add: example_env_def)
  have cat: "NTOSKRNL_MAP = [?xp] @ win7 # ?post"
    by (simp add: NTOSKRNL_MAP_def win7_def os_path_join_def)
  have pre: "\<forall>x \<in> set [?xp]. \<not> os_path_isfile example_world (os_path_join ''/in'' (fst x))"
    by code_simp
  have mk: "mkdtemp_result ?F
      (example_world\<lparr>sys_stdout := sys_stdout example_world @
         map (\<lambda>x. NotFoundMsg (fst x)) [?xp]\<rparr>) = Inr ''/tmp/tmpA''"
    by (rule ex_mkdtemp)
  have so: "sys_stdout example_world = []" by (simp add: example_world_def)
  note T = missing_tool_surfaces_at_first_archive[OF ab]
  from T[of NTOSKRNL_MAP "example_world\<lparr>files := {}\<rparr>" "''/in''" "''/out''",
      THEN conjunct1, THEN mp, THEN mp, OF none pall]
    T[of NTOSKRNL_MAP example_world "''/in''" "''/out''",
      THEN conjunct2, THEN spec, THEN spec, THEN spec, THEN spec,
      THEN mp, THEN mp, THEN mp, THEN mp, THEN mp, THEN mp,
      OF cat pre ppre ex_present mk ex_fresh]
  show ?thesis by (simp add: ex_obs so win7_def)
qed

text \<open>With \<^verbatim>\<open>7z\<close> missing, \<^verbatim>\<open>main\<close> ends normally when the input directory holds no
  archive; when it holds one, an entry has been reported as not found and a workspace has been
  created and deleted again before the exception ends the run.\<close>

theorem missing_tool_not_checked_first:
  "fst (main (example_env not_installed never_refused) example_args
          (example_world\<lparr>files := {}\<rparr>)) = Inr () \<and>
   fst (main (example_env not_installed never_refused) example_args example_world) =
     Inl (OSError ''No such file or directory: 7z'') \<and>
   sys_stdout (snd (main (example_env not_installed never_refused) example_args
                      example_world)) =
     [NotFoundMsg ''en_windows_xp_professional_with_service_pack_3_x86_cd_x14-80428.iso'',
      ExtractingMsg ''en_windows_7_enterprise_with_sp1_x64_dvd_u_677651.iso''] \<and>
   trace (snd (main (example_env not_installed never_refused) example_args example_world)) =
     [Mkdtemp,
      Popen [''7z'', ''e'', ''/in/en_windows_7_enterprise_with_sp1_x64_dvd_u_677651.iso'',
             ''sources/install.wim''] ''/tmp/tmpA'',
      Rmtree ''/tmp/tmpA'']"
  by code_simp

subsection \<open>C9\<close>

text \<open>
  C9. \<^verbatim>\<open>cleanup\<close> never raises. When the recursive deletion fails, the error is printed on
  standard error and the object stays open. What an iteration returns and the outcome lines it
  prints are the same whichever deletions are refused, and an iteration that ends normally is
  followed by the rest of the loop. At the end of the object's life \<^verbatim>\<open>__del__\<close> runs
  \<^verbatim>\<open>cleanup\<close> once more on an object that is still open: when that deletion succeeds the
  warning is printed, when it fails the error is printed again.
\<close>

theorem cleanup_failure_contained:
  "fst (cleanup E warn self w) = Inr () \<and>
   (name self = Some n \<longrightarrow> n \<noteq> [] \<longrightarrow> \<not> closed self \<longrightarrow> shutil_rmtree E n w = (Inl e, w1) \<longrightarrow>
      cleanup E warn self w =
        (Inr (), self, w1\<lparr>sys_stderr := sys_stderr w1 @ [CleanupErrorMsg e (Some n)]\<rparr>)) \<and>
   fst (loop_body (E\<lparr>rmtree_fault := rf\<rparr>) iso_dir output_dir ent w) =
     fst (loop_body E iso_dir output_dir ent w) \<and>
   outcome_msgs (snd (loop_body (E\<lparr>rmtree_fault := rf\<rparr>) iso_dir output_dir ent w)) =
     outcome_msgs (snd (loop_body E iso_dir output_dir ent w)) \<and>
   (fst (loop_body E iso_dir output_dir ent w) = Inr () \<longrightarrow>
      main_loop (E\<lparr>rmtree_fault := rf\<rparr>) iso_dir output_dir (ent # rest) w =
        main_loop (E\<lparr>rmtree_fault := rf\<rparr>) iso_dir output_dir rest
          (snd (loop_body (E\<lparr>rmtree_fault := rf\<rparr>) iso_dir output_dir ent w))) \<and>
   (name self = Some n \<longrightarrow> n \<noteq> [] \<longrightarrow> \<not> closed self \<longrightarrow> shutil_rmtree E n w = (Inr u, w1) \<longrightarrow>
      TemporaryDirectory_del E self w =
        (Inr (), self\<lparr>closed := True\<rparr>,
         w1\<lparr>sys_stdout := sys_stdout w1 @ [ImplicitCleanupMsg (Some n)]\<rparr>)) \<and>
   (name self = Some n \<longrightarrow> n \<noteq> [] \<longrightarrow> \<not> closed self \<longrightarrow> shutil_rmtree E n w = (Inl e, w1) \<longrightarrow>
      TemporaryDirectory_del E self w =
        (Inr (), self, w1\<lparr>sys_stderr := sys_stderr w1 @ [CleanupErrorMsg e (Some n)]\<rparr>))"
proof -
  obtain r s v where c: "cleanup E warn self w = (r, s, v)" by (cases "cleanup E warn self w")
  have 1: "fst (cleanup E warn self w) = Inr ()" using cleanup_frame(1)[OF c] c by simp
  note lb = loop_body_rmtree_fault[where E = E and rf = rf and d = iso_dir and od = output_dir
      and ent = ent and w = w]
  have 5: "fst (loop_body E iso_dir output_dir ent w) = Inr () \<longrightarrow>
      main_loop (E\<lparr>rmtree_fault := rf\<rparr>) iso_dir output_dir (ent # rest) w =
        main_loop (E\<lparr>rmtree_fault := rf\<rparr>) iso_dir output_dir rest
          (snd (loop_body (E\<lparr>rmtree_fault := rf\<rparr>) iso_dir output_dir ent w))"
  proof
    assume "fst (loop_body E iso_dir output_dir ent w) = Inr ()"
    with lb have "fst (loop_body (E\<lparr>rmtree_fault := rf\<rparr>) iso_dir output_dir ent w) = Inr ()"
      by simp
    then show "main_loop (E\<lparr>rmtree_fault := rf\<rparr>) iso_dir output_dir (ent # rest) w =
        main_loop (E\<lparr>rmtree_fault := rf\<rparr>) iso_dir output_dir rest
          (snd (loop_body (E\<lparr>rmtree_fault := rf\<rparr>) iso_dir output_dir ent w))"
      by (cases "loop_body (E\<lparr>rmtree_fault := rf\<rparr>) iso_dir output_dir ent w") simp
  qed
  from 1 lb 5 show ?thesis
    by (simp add: cleanup_open TemporaryDirectory_del_def)
qed

text \<open>A workspace whose deletion is refused, and one whose deletion is left to the
  finalizer.\<close>

theorem cleanup_failure_contained_witness:
  "cleanup (example_env extracts_member always_refused) False open_workspace workspace_world =
     (Inr (), open_workspace,
      workspace_world\<lparr>trace := [Rmtree ''/tmp/tmpA''],
        sys_stderr := [CleanupErrorMsg (OSError ''Device or resource busy'')
                         (Some ''/tmp/tmpA'')]\<rparr>) \<and>
   TemporaryDirectory_del (example_env extracts_member always_refused) open_workspace
       workspace_world =
     (Inr (), open_workspace,
      workspace_world\<lparr>trace := [Rmtree ''/tmp/tmpA''],
        sys_stderr := [CleanupErrorMsg (OSError ''Device or resource busy'')
                         (Some ''/tmp/tmpA'')]\<rparr>) \<and>
   TemporaryDirectory_del (example_env extracts_member never_refused) open_workspace
       workspace_world =
     (Inr (), open_workspace\<lparr>closed := True\<rparr>,
      example_world\<lparr>trace := [Rmtree ''/tmp/tmpA''],
        sys_stdout := [ImplicitCleanupMsg (Some ''/tmp/tmpA'')]\<rparr>) \<and>
   fst (loop_body (example_env extracts_member always_refused) ''/in'' ''/out'' win7
          example_world) = Inr () \<and>
   outcome_msgs (snd (loop_body (example_env extracts_member always_refused) ''/in'' ''/out''
          win7 example_world)) =
     [ExtractingMsg ''en_windows_7_enterprise_with_sp1_x64_dvd_u_677651.iso'',
      SuccessMsg ''en_windows_7_enterprise_with_sp1_x64_dvd_u_677651.iso''] \<and>
   sys_stderr (snd (loop_body (example_env extracts_member always_refused) ''/in'' ''/out''
          win7 example_world)) =
     [CleanupErrorMsg (OSError ''Device or resource busy'') (Some ''/tmp/tmpA''),
      CleanupErrorMsg (OSError ''Device or resource busy'') (Some ''/tmp/tmpA'')] \<and>
   main_loop (example_env extracts_member always_refused) ''/in'' ''/out'' [win7, win7]
       example_world =
     main_loop (example_env extracts_member always_refused) ''/in'' ''/out'' [win7]
       (snd (loop_body (example_env extracts_member always_refused) ''/in'' ''/out'' win7
               example_world))"
proof -
  let ?E = "example_env extracts_member never_refused"
  let ?F = "example_env extracts_member always_refused"
  let ?e = "OSError ''Device or resource busy''"
  let ?t = "''/tmp/tmpA''"
  have F: "?E\<lparr>rmtree_fault := always_refused\<rparr> = ?F" by (simp add: example_env_def)
  have n: "name open_workspace = Some ?t" "?t \<noteq> []" "\<not> closed open_workspace"
    by (simp_all add: open_workspace_def)
  have r1: "shutil_rmtree ?F ?t workspace_world =
      (Inl ?e, workspace_world\<lparr>trace := [Rmtree ?t]\<rparr>)"
    by (simp add: shutil_rmtree_def workspace_world_def example_world_def example_env_def
        always_refused_def)
  have r2: "shutil_rmtree ?E ?t workspace_world =
      (Inr (), example_world\<lparr>trace := [Rmtree ?t]\<rparr>)"
    by code_simp
  have ok: "fst (loop_body ?E ''/in'' ''/out'' win7 example_world) = Inr ()" by code_simp
  have om: "outcome_msgs (snd (loop_body ?E ''/in'' ''/out'' win7 example_world)) =
     [ExtractingMsg ''en_windows_7_enterprise_with_sp1_x64_dvd_u_677651.iso'',
      SuccessMsg ''en_windows_7_enterprise_with_sp1_x64_dvd_u_677651.iso'']"
    by code_simp
  have se: "sys_stderr (snd (loop_body ?F ''/in'' ''/out'' win7 example_world)) =
     [CleanupErrorMsg ?e (Some ?t), CleanupErrorMsg ?e (Some ?t)]"
    by code_simp
  have ws: "sys_stderr workspace_world = []" "sys_stdout example_world = []"
    by (simp_all add: workspace_world_def example_world_def)
  note A = cleanup_failure_contained[where E = ?F and warn = False and self = open_workspace
      and w = workspace_world and n = ?t and e = ?e
      and ?w1.0 = "workspace_world\<lparr>trace := [Rmtree ?t]\<rparr>"]
  note B = cleanup_failure_contained[where E = ?E and rf = always_refused
      and iso_dir = "''/in''" and output_dir = "''/out''" and ent = win7 and w = example_world
      and rest = "[win7]", unfolded F]
  note C = cleanup_failure_contained[where E = ?E and self = open_workspace
      and w = workspace_world and n = ?t
      and ?w1.0 = "example_world\<lparr>trace := [Rmtree ?t]\<rparr>" and u = "()"]
  have 1: "cleanup ?F False open_workspace workspace_world =
     (Inr (), open_workspace,
      workspace_world\<lparr>trace := [Rmtree ?t], sys_stderr := [CleanupErrorMsg ?e (Some ?t)]\<rparr>)"
    using A n r1 ws by simp
  have 2: "TemporaryDirectory_del ?F open_workspace workspace_world =
     (Inr (), open_workspace,
      workspace_world\<lparr>trace := [Rmtree ?t], sys_stderr := [CleanupErrorMsg ?e (Some ?t)]\<rparr>)"
    using A n r1 ws by simp
  have 3: "TemporaryDirectory_del ?E open_workspace workspace_world =
     (Inr (), open_workspace\<lparr>closed := True\<rparr>,
      example_world\<lparr>trace := [Rmtree ?t], sys_stdout := [ImplicitCleanupMsg (Some ?t)]\<rparr>)"
    using C n r2 ws by simp
  have 4: "fst (loop_body ?F ''/in'' ''/out'' win7 example_world) = Inr ()"
    using B ok by simp
  have 5: "outcome_msgs (snd (loop_body ?F ''/in'' ''/out'' win7 example_world)) =
     [ExtractingMsg ''en_windows_7_enterprise_with_sp1_x64_dvd_u_677651.iso'',
      SuccessMsg ''en_windows_7_enterprise_with_sp1_x64_dvd_u_677651.iso'']"
    using B om by simp
  have 6: "main_loop ?F ''/in'' ''/out'' [win7, win7] example_world =
     main_loop ?F ''/in'' ''/out'' [win7]
       (snd (loop_body ?F ''/in'' ''/out'' win7 example_world))"
    using B ok by blast
  from 1 2 3 4 5 se 6 show ?thesis by blast
qed

subsection \<open>C10\<close>

text \<open>
  C10. \<^verbatim>\<open>cleanup\<close> on a closed object changes nothing, in any environment and with either
  value of \<^verbatim>\<open>warn\<close>: once a call has closed the object (which it does exactly when its
  deletion succeeded), every later call deletes nothing and prints nothing. When \<^verbatim>\<open>__del__\<close>
  prints at all on standard output, the object was open, the directory existed before the
  call and is gone after it, and what is printed is the one warning line.
\<close>

theorem cleanup_idempotent:
  "(closed self \<longrightarrow> cleanup E warn self w = (Inr (), self, w)) \<and>
   (cleanup E warn self w = (r, self', w') \<longrightarrow> closed self' \<longrightarrow>
      (\<forall>E' warn' w''. cleanup E' warn' self' w'' = (Inr (), self', w''))) \<and>
   (TemporaryDirectory_del E self w = (r, self', w') \<longrightarrow> sys_stdout w' \<noteq> sys_stdout w \<longrightarrow>
      (\<exists>n. name self = Some n \<and> \<not> closed self \<and> closed self' \<and>
           n \<in> dirs w \<and> n \<notin> dirs w' \<and>
           sys_stdout w' = sys_stdout w @ [ImplicitCleanupMsg (Some n)]))"
proof (intro conjI impI allI)
  assume "closed self"
  then show "cleanup E warn self w = (Inr (), self, w)" by (rule cleanup_closed)
next
  fix E' warn' w''
  assume "closed self'"
  then show "cleanup E' warn' self' w'' = (Inr (), self', w'')" by (rule cleanup_closed)
next
  assume d: "TemporaryDirectory_del E self w = (r, self', w')"
    and ch: "sys_stdout w' \<noteq> sys_stdout w"
  from d have c: "cleanup E True self w = (r, self', w')"
    by (simp add: TemporaryDirectory_del_def)
  show "\<exists>n. name self = Some n \<and> \<not> closed self \<and> closed self' \<and>
           n \<in> dirs w \<and> n \<notin> dirs w' \<and>
           sys_stdout w' = sys_stdout w @ [ImplicitCleanupMsg (Some n)]"
  proof (cases "name self")
    case None
    with c ch show ?thesis by (simp add: cleanup_None)
  next
    case (Some n)
    show ?thesis
    proof (cases "n \<noteq> [] \<and> \<not> closed self")
      case False
      with c ch Some show ?thesis by (auto simp: cleanup_def)
    next
      case True
      obtain x w1 where rm: "shutil_rmtree E n w = (x, w1)" by (cases "shutil_rmtree E n w")
      note fr = rmtree_frame[OF rm]
      show ?thesis
      proof (cases x)
        case (Inl e)
        with c ch Some True rm fr(1) show ?thesis by (auto simp: cleanup_open)
      next
        case (Inr u)
        with rm have g: "n \<in> dirs w \<and> (\<forall>p \<in> dirs w1 \<union> files w1. \<not> in_tree n p)"
          by (auto dest: rmtree_gone)
        then have "n \<notin> dirs w1" using in_tree_self by blast
        with c Some True rm Inr fr(1) g show ?thesis by (auto simp: cleanup_open)
      qed
    qed
  qed
qed

text \<open>A first \<^verbatim>\<open>cleanup\<close> that removes the workspace, a second one on the closed object,
  and a finalizer that finds the workspace still there.\<close>

theorem cleanup_idempotent_witness:
  "cleanup (example_env extracts_member never_refused) False open_workspace workspace_world =
     (Inr (), open_workspace\<lparr>closed := True\<rparr>,
      example_world\<lparr>trace := [Rmtree ''/tmp/tmpA'']\<rparr>) \<and>
   cleanup (example_env extracts_member never_refused) True (open_workspace\<lparr>closed := True\<rparr>)
       (example_world\<lparr>trace := [Rmtree ''/tmp/tmpA'']\<rparr>) =
     (Inr (), open_workspace\<lparr>closed := True\<rparr>,
      example_world\<lparr>trace := [Rmtree ''/tmp/tmpA'']\<rparr>) \<and>
   cleanup (example_env extracts_member always_refused) False (open_workspace\<lparr>closed := True\<rparr>)
       workspace_world =
     (Inr (), open_workspace\<lparr>closed := True\<rparr>, workspace_world) \<and>
   sys_stdout (snd (snd (TemporaryDirectory_del (example_env extracts_member never_refused)
       open_workspace workspace_world))) = [ImplicitCleanupMsg (Some ''/tmp/tmpA'')] \<and>
   ''/tmp/tmpA'' \<in> dirs workspace_world \<and>
   ''/tmp/tmpA'' \<notin> dirs (snd (snd (TemporaryDirectory_del
       (example_env extracts_member never_refused) open_workspace workspace_world)))"
proof -
  let ?E = "example_env extracts_member never_refused"
  let ?h' = "open_workspace\<lparr>closed := True\<rparr>"
  let ?w' = "example_world\<lparr>trace := [Rmtree ''/tmp/tmpA'']\<rparr>"
  have c: "cleanup ?E False open_workspace workspace_world = (Inr (), ?h', ?w')"
    by code_simp
  have cl: "closed ?h'" by simp
  obtain r s v where d: "TemporaryDirectory_del ?E open_workspace workspace_world = (r, s, v)"
    by (cases "TemporaryDirectory_del ?E open_workspace workspace_world")
  have "sys_stdout (snd (snd (TemporaryDirectory_del ?E open_workspace workspace_world))) \<noteq>
        sys_stdout workspace_world"
    by code_simp
  with d have ne: "sys_stdout v \<noteq> sys_stdout workspace_world" by simp
  have so: "sys_stdout workspace_world = []" "name open_workspace = Some ''/tmp/tmpA''"
    by (simp_all add: workspace_world_def example_world_def open_workspace_def)
  from cleanup_idempotent[where self = open_workspace and E = ?E and warn = False
      and w = workspace_world and r = "Inr ()" and self' = ?h' and w' = ?w',
      THEN conjunct2, THEN conjunct1, THEN mp, THEN mp, OF c cl]
  have a: "cleanup ?E True ?h' ?w' = (Inr (), ?h', ?w')" by blast
  from cleanup_idempotent[where self = open_workspace and E = ?E and w = workspace_world
      and r = r and self' = s and w' = v,
      THEN conjunct2, THEN conjunct2, THEN mp, THEN mp, OF d ne] so
  have b: "''/tmp/tmpA'' \<in> dirs workspace_world \<and> ''/tmp/tmpA'' \<notin> dirs v \<and>
      sys_stdout v = [ImplicitCleanupMsg (Some ''/tmp/tmpA'')]"
    by auto
  from cleanup_idempotent[where self = ?h' and E = "example_env extracts_member always_refused"
      and warn = False and w = workspace_world, THEN conjunct1, THEN mp, OF cl]
  have a0: "cleanup (example_env extracts_member always_refused) False ?h' workspace_world =
      (Inr (), ?h', workspace_world)" .
  from a0 a b c d show ?thesis by simp
qed


end
